theory Spec2Isabelle
  imports Main "HOL-Library.Char_ord" "HOL-Library.List_Lexorder" "HOL-Library.Product_Lexorder"
    "HOL-Library.AList" "HOL-Library.Multiset"
begin

section \<open>Python values, strings and exceptions\<close>

text \<open>
  The program is a Python script that works on data loaded from YAML and JSON documents.
  Such a value is \<open>None\<close>, a boolean, an integer, a string, a list or a mapping with
  string keys. A string is a list of characters; a character stands for a code point
  below 256, so \<open>\d\<close> of a regular expression is exactly \<open>0\<close> to \<open>9\<close>.
  A mapping keeps its insertion order and is an association list.

  An exception is its class name and its message. Every function of the script that can
  raise returns \<open>exn + 'a\<close>, with \<open>Inl\<close> for the exception.
\<close>

datatype pyval =
    VNone
  | VBool bool
  | VInt int
  | VStr string
  | VList "pyval list"
  | VDict "(string \<times> pyval) list"

datatype exn = Exn string string

abbreviation ValueError :: "string \<Rightarrow> exn" where
  "ValueError m \<equiv> Exn ''ValueError'' m"

abbreviation RuntimeError :: "string \<Rightarrow> exn" where
  "RuntimeError m \<equiv> Exn ''RuntimeError'' m"

abbreviation AttributeError :: "string \<Rightarrow> exn" where
  "AttributeError m \<equiv> Exn ''AttributeError'' m"

abbreviation TypeError :: "string \<Rightarrow> exn" where
  "TypeError m \<equiv> Exn ''TypeError'' m"

definition exn_class :: "exn \<Rightarrow> string" where
  "exn_class e = (case e of Exn c m \<Rightarrow> c)"

definition exn_msg :: "exn \<Rightarrow> string" where
  "exn_msg e = (case e of Exn c m \<Rightarrow> m)"

definition bind_exn :: "exn + 'a \<Rightarrow> ('a \<Rightarrow> exn + 'b) \<Rightarrow> exn + 'b" where
  "bind_exn m f = (case m of Inl e \<Rightarrow> Inl e | Inr x \<Rightarrow> f x)"

definition type_name :: "pyval \<Rightarrow> string" where
  "type_name v = (case v of VNone \<Rightarrow> ''NoneType'' | VBool b \<Rightarrow> ''bool'' | VInt i \<Rightarrow> ''int''
                  | VStr s \<Rightarrow> ''str'' | VList xs \<Rightarrow> ''list'' | VDict kvs \<Rightarrow> ''dict'')"

text \<open>
  The exceptions that the interpreter raises for a value of the wrong type. Their class is
  Python's; their message is an indication only.
\<close>

definition no_attribute :: "pyval \<Rightarrow> string \<Rightarrow> exn" where
  "no_attribute v a = AttributeError (type_name v @ '' object has no attribute '' @ a)"

definition type_error :: "pyval \<Rightarrow> string \<Rightarrow> exn" where
  "type_error v what = TypeError (type_name v @ '' object '' @ what)"

text \<open>
  The entries of a manifest. An artifact entry has the keys of the dictionary that
  \<open>process_positions\<close> builds; \<open>download\<close> and \<open>decompressed\<close> are records of their own,
  and the empty \<open>decompressed\<close> dictionary is \<open>None\<close>. The two error entries are the
  dictionaries with \<open>status: error\<close> of a position and of an order.
\<close>

record host_result =
  hr_host :: pyval
  hr_status :: string
  hr_stderr :: string

record download_info =
  dl_path :: string
  dl_done :: bool
  dl_sha256 :: "string option"
  dl_size_bytes :: "nat option"

record decompressed_info =
  dc_path :: string
  dc_sha256 :: string
  dc_size_bytes :: nat

record artifact =
  a_name :: pyval
  a_product :: string
  a_platform :: pyval
  a_arch :: pyval
  a_version :: pyval
  a_version_source :: string
  a_secureboot :: bool
  a_image_format :: pyval
  a_schematic_id :: pyval
  a_url :: string
  a_cache_dir :: string
  a_download :: download_info
  a_decompressed :: "decompressed_info option"
  a_pushed :: "host_result list"
  a_features :: pyval
  a_timestamp_utc :: string

datatype entry =
    Artifact artifact
  | PositionError pyval string
  | OrderError string

record policy =
  pol_enabled :: bool
  pol_keep_versions :: int
  pol_purge_before :: bool

record manifest =
  m_generated_at :: string
  m_orderid :: string
  m_customer :: pyval
  m_positions_count :: nat
  m_source_config :: string
  m_source_orders :: string
  m_cache_policy :: policy
  m_entries :: "entry list"

text \<open>
  Every operation that changes the file system or reaches a remote service or another
  process leaves an event: creating a directory, the GET of a JSON document, the POST of
  a schematic (address and customization), a download (address and target file), writing
  a file (path and content), renaming a file, running a command, removing a file and
  removing a directory tree.
\<close>

datatype event =
    Makedirs string
  | HttpGet string
  | HttpPost string pyval
  | Download string string
  | WriteFile string string
  | Rename string string
  | Run "string list"
  | Remove string
  | Rmtree string

text \<open>
  What lies outside the script is a parameter: a record of the answers of the interpreter,
  of the remote services and of the other processes. An answer may depend on the events
  so far. The fields are: \<open>repr\<close> of a list or of a mapping, which \<open>str\<close> and an f-string
  use for such a value; the JSON document a GET returns; the JSON document the POST of a
  schematic returns; the body a download returns; return code, output and error output
  of a command; the SHA-256 digest of a content in hexadecimal; whether the module
  \<open>lzma\<close> could be imported and what it decodes a content to; the size the system
  reports for a directory; the time of day as text; \<open>str.format\<close> of a template with
  the keyword \<open>orderid\<close>; \<open>os.path.abspath\<close>; and the YAML text of a manifest.
\<close>

record env =
  repr_of :: "pyval \<Rightarrow> string"
  http_json_answer :: "event list \<Rightarrow> string \<Rightarrow> exn + pyval"
  http_post_answer :: "event list \<Rightarrow> string \<Rightarrow> pyval \<Rightarrow> exn + pyval"
  http_body_answer :: "event list \<Rightarrow> string \<Rightarrow> exn + string"
  run_answer :: "event list \<Rightarrow> string list \<Rightarrow> exn + (int \<times> string \<times> string)"
  sha256_hex :: "string \<Rightarrow> string"
  have_lzma :: bool
  lzma_decode :: "string \<Rightarrow> exn + string"
  dir_size :: nat
  time_utc :: "event list \<Rightarrow> string"
  str_format :: "string \<Rightarrow> string \<Rightarrow> exn + string"
  abspath :: "string \<Rightarrow> string"
  yaml_dump :: "manifest \<Rightarrow> string"

text \<open>Truth value of a Python value, as \<open>if\<close>, \<open>not\<close>, \<open>and\<close>, \<open>or\<close> and \<open>bool\<close> take it.\<close>

fun truthy :: "pyval \<Rightarrow> bool" where
  "truthy VNone = False"
| "truthy (VBool b) = b"
| "truthy (VInt i) = (i \<noteq> 0)"
| "truthy (VStr s) = (s \<noteq> [])"
| "truthy (VList xs) = (xs \<noteq> [])"
| "truthy (VDict kvs) = (kvs \<noteq> [])"

definition py_or :: "pyval \<Rightarrow> pyval \<Rightarrow> pyval" where
  "py_or a b = (if truthy a then a else b)"

fun show_nat :: "nat \<Rightarrow> string" where
  "show_nat n = (if n < 10 then [char_of (48 + n)]
                 else show_nat (n div 10) @ [char_of (48 + n mod 10)])"

declare show_nat.simps [simp del]

text \<open>\<open>str(v)\<close>, which is also what an f-string puts in place of \<open>{v}\<close>.\<close>

fun py_str :: "env \<Rightarrow> pyval \<Rightarrow> string" where
  "py_str E VNone = ''None''"
| "py_str E (VBool b) = (if b then ''True'' else ''False'')"
| "py_str E (VInt i) = (if i < 0 then ''-'' @ show_nat (nat (- i)) else show_nat (nat i))"
| "py_str E (VStr s) = s"
| "py_str E (VList xs) = repr_of E (VList xs)"
| "py_str E (VDict kvs) = repr_of E (VDict kvs)"

text \<open>
  \<open>d.get(k, default)\<close>, \<open>d[k]\<close>, \<open>k in d\<close>, \<open>for x in v\<close> and \<open>len(v)\<close>. A value that
  is no mapping has no \<open>get\<close>. A key occurs once in a mapping.
\<close>

definition py_get :: "pyval \<Rightarrow> string \<Rightarrow> pyval \<Rightarrow> exn + pyval" where
  "py_get d k dflt =
     (case d of
        VDict kvs \<Rightarrow> Inr (case map_of kvs k of None \<Rightarrow> dflt | Some v \<Rightarrow> v)
      | _ \<Rightarrow> Inl (no_attribute d ''get''))"

definition py_getitem :: "pyval \<Rightarrow> string \<Rightarrow> exn + pyval" where
  "py_getitem d k =
     (case d of
        VDict kvs \<Rightarrow> (case map_of kvs k of None \<Rightarrow> Inl (Exn ''KeyError'' k) | Some v \<Rightarrow> Inr v)
      | VNone \<Rightarrow> Inl (type_error d ''is not subscriptable'')
      | VBool b \<Rightarrow> Inl (type_error d ''is not subscriptable'')
      | VInt i \<Rightarrow> Inl (type_error d ''is not subscriptable'')
      | _ \<Rightarrow> Inl (type_error d ''indices must be integers''))"

fun contains_sub :: "string \<Rightarrow> string \<Rightarrow> bool" where
  "contains_sub p [] = (p = [])"
| "contains_sub p (c # s) = (take (length p) (c # s) = p \<or> contains_sub p s)"

definition py_contains :: "pyval \<Rightarrow> string \<Rightarrow> exn + bool" where
  "py_contains d k =
     (case d of
        VDict kvs \<Rightarrow> Inr (map_of kvs k \<noteq> None)
      | VList xs \<Rightarrow> Inr (VStr k \<in> set xs)
      | VStr s \<Rightarrow> Inr (contains_sub k s)
      | _ \<Rightarrow> Inl (type_error d ''is not iterable''))"

definition py_iter :: "pyval \<Rightarrow> exn + pyval list" where
  "py_iter v =
     (case v of
        VList xs \<Rightarrow> Inr xs
      | VDict kvs \<Rightarrow> Inr (map (\<lambda>kv. VStr (fst kv)) kvs)
      | VStr s \<Rightarrow> Inr (map (\<lambda>c. VStr [c]) s)
      | _ \<Rightarrow> Inl (type_error v ''is not iterable''))"

definition py_len :: "pyval \<Rightarrow> exn + nat" where
  "py_len v =
     (case v of
        VList xs \<Rightarrow> Inr (length xs)
      | VDict kvs \<Rightarrow> Inr (length kvs)
      | VStr s \<Rightarrow> Inr (length s)
      | _ \<Rightarrow> Inl (type_error v ''has no len()''))"

text \<open>A value where a path is expected.\<close>

definition as_path :: "pyval \<Rightarrow> exn + string" where
  "as_path v = (case v of VStr s \<Rightarrow> Inr s
                | _ \<Rightarrow> Inl (type_error v ''is no str, bytes or os.PathLike''))"

subsection \<open>String operations\<close>

definition is_digit :: "char \<Rightarrow> bool" where
  "is_digit c = (c \<in> set ''0123456789'')"

definition digit_val :: "char \<Rightarrow> nat" where
  "digit_val c = of_char c - 48"

definition digits_val :: "string \<Rightarrow> nat" where
  "digits_val s = foldl (\<lambda>acc c. 10 * acc + digit_val c) 0 s"

text \<open>
  \<open>int(s)\<close> on a string of decimal digits, the only strings it is given here (the groups
  of \<open>_SEMVER_CORE\<close>). On any other string this model raises \<open>ValueError\<close>; Python accepts
  a few more, such as a sign or blanks around the digits. Python's integers are unbounded.
\<close>

definition py_int :: "string \<Rightarrow> exn + int" where
  "py_int s = (if s \<noteq> [] \<and> (\<forall>c\<in>set s. is_digit c) then Inr (int (digits_val s))
               else Inl (ValueError (''invalid literal for int() with base 10: '' @ s)))"

text \<open>\<open>s.lstrip(ch)\<close> for a one-character argument.\<close>

definition lstrip :: "char \<Rightarrow> string \<Rightarrow> string" where
  "lstrip ch s = dropWhile (\<lambda>c. c = ch) s"

text \<open>
  \<open>s.split(sep, 1)\<close> for a one-character separator: the part before the first separator
  and, when there is a separator, the part after it.
\<close>

definition split1 :: "char \<Rightarrow> string \<Rightarrow> string \<times> string option" where
  "split1 sep s = (if sep \<in> set s
     then (takeWhile (\<lambda>c. c \<noteq> sep) s, Some (tl (dropWhile (\<lambda>c. c \<noteq> sep) s)))
     else (s, None))"

definition startswith :: "string \<Rightarrow> string \<Rightarrow> bool" where
  "startswith s p = (take (length p) s = p)"

definition endswith :: "string \<Rightarrow> string \<Rightarrow> bool" where
  "endswith s p = (length p \<le> length s \<and> drop (length s - length p) s = p)"

text \<open>
  \<open>s.lower()\<close> and the blanks of \<open>s.strip()\<close>, for code points below 256.
\<close>

definition lower_char :: "char \<Rightarrow> char" where
  "lower_char c =
     (let n = (of_char c :: nat)
      in if (65 \<le> n \<and> n \<le> 90) \<or> (192 \<le> n \<and> n \<le> 222 \<and> n \<noteq> 215) then char_of (n + 32) else c)"

definition py_lower :: "string \<Rightarrow> string" where
  "py_lower s = map lower_char s"

definition is_space :: "char \<Rightarrow> bool" where
  "is_space c =
     (let n = (of_char c :: nat)
      in (9 \<le> n \<and> n \<le> 13) \<or> (28 \<le> n \<and> n \<le> 32) \<or> n = 133 \<or> n = 160)"

definition py_strip :: "string \<Rightarrow> string" where
  "py_strip s = rev (dropWhile is_space (rev (dropWhile is_space s)))"

definition rstrip :: "char \<Rightarrow> string \<Rightarrow> string" where
  "rstrip ch s = rev (dropWhile (\<lambda>c. c = ch) (rev s))"

text \<open>\<open>s.split(sep)[-1]\<close> for a one-character separator: the part after the last one.\<close>

definition last_component :: "char \<Rightarrow> string \<Rightarrow> string" where
  "last_component sep s = rev (takeWhile (\<lambda>c. c \<noteq> sep) (rev s))"

text \<open>\<open>s.replace(old, new)\<close> for a non-empty \<open>old\<close>.\<close>

fun py_replace :: "string \<Rightarrow> string \<Rightarrow> string \<Rightarrow> string" where
  "py_replace old new [] = []"
| "py_replace old new (c # s) =
     (if old \<noteq> [] \<and> take (length old) (c # s) = old
      then new @ py_replace old new (drop (length old) (c # s))
      else c # py_replace old new s)"

text \<open>\<open>shlex_quote(s)\<close> of the script: every quote becomes \<open>'"'"'\<close>.\<close>

definition shlex_quote :: "string \<Rightarrow> string" where
  "shlex_quote s =
     [CHR 0x27] @ py_replace [CHR 0x27] [CHR 0x27, CHR 0x22, CHR 0x27, CHR 0x22, CHR 0x27] s
     @ [CHR 0x27]"

section \<open>Version resolution: the sort key of a tag\<close>

text \<open>
  \<open>_SEMVER_CORE = re.compile(r"^(\d+)\.(\d+)\.(\d+)$")\<close>, applied with \<open>match\<close>. Each
  \<open>\d+\<close> takes the longest run of digits: a shorter run would have to be followed by a
  dot or by the end, and is followed by a digit. \<open>$\<close> holds at the end of the string and
  also just before a newline that ends the string. The result is the three groups.
\<close>

definition semver_core_match :: "string \<Rightarrow> (string \<times> string \<times> string) option" where
  "semver_core_match core =
     (let g1 = takeWhile is_digit core; r1 = dropWhile is_digit core in
      if g1 = [] then None else
      case r1 of
        [] \<Rightarrow> None
      | c1 # s2 \<Rightarrow>
          if c1 \<noteq> CHR ''.'' then None else
          let g2 = takeWhile is_digit s2; r2 = dropWhile is_digit s2 in
          if g2 = [] then None else
          case r2 of
            [] \<Rightarrow> None
          | c2 # s3 \<Rightarrow>
              if c2 \<noteq> CHR ''.'' then None else
              let g3 = takeWhile is_digit s3; r3 = dropWhile is_digit s3 in
              if g3 = [] then None
              else if r3 = [] \<or> r3 = [CHR 0x0A] then Some (g1, g2, g3)
              else None)"

type_synonym semver_key = "int \<times> int \<times> int \<times> int \<times> string"

text \<open>
  \<open>_semver_key(tag)\<close>. The key is a Python tuple; tuples, integers and strings are
  compared as Python does, lexicographically, which is the order of the product and list
  types here. \<open>pre\<close> is \<open>None\<close> when the tag has no hyphen after its leading \<open>v\<close>s.
\<close>

definition semver_key :: "string \<Rightarrow> exn + semver_key" where
  "semver_key tag =
     (let t = lstrip CHR ''v'' tag;
          parts = split1 CHR ''-'' t;
          core = fst parts;
          pre = snd parts
      in case semver_core_match core of
           None \<Rightarrow>
             Inr (0, 0, 0,
                  (if pre \<noteq> None \<and> pre \<noteq> Some [] then - 1 else 0),
                  (case pre of None \<Rightarrow> [] | Some p \<Rightarrow> p))
         | Some (g1, g2, g3) \<Rightarrow>
             bind_exn (py_int g1) (\<lambda>major.
             bind_exn (py_int g2) (\<lambda>minor.
             bind_exn (py_int g3) (\<lambda>patch.
               Inr (major, minor, patch,
                    (if pre = None then 0 else - 1),
                    (case pre of None \<Rightarrow> [] | Some p \<Rightarrow> p))))))"

text \<open>\<open>_parse_semver_for_sort(tag)\<close>, which the script writes out a second time.\<close>

definition parse_semver_for_sort :: "string \<Rightarrow> exn + semver_key" where
  "parse_semver_for_sort tag =
     (let t = lstrip CHR ''v'' tag;
          parts = split1 CHR ''-'' t;
          core = fst parts;
          pre = snd parts
      in case semver_core_match core of
           None \<Rightarrow>
             Inr (0, 0, 0,
                  (if pre \<noteq> None \<and> pre \<noteq> Some [] then - 1 else 0),
                  (case pre of None \<Rightarrow> [] | Some p \<Rightarrow> p))
         | Some (g1, g2, g3) \<Rightarrow>
             bind_exn (py_int g1) (\<lambda>major.
             bind_exn (py_int g2) (\<lambda>minor.
             bind_exn (py_int g3) (\<lambda>patch.
               Inr (major, minor, patch,
                    (if pre = None then 0 else - 1),
                    (case pre of None \<Rightarrow> [] | Some p \<Rightarrow> p))))))"



section \<open>Asset URL\<close>

text \<open>\<open>build_asset_url(schematic_id, version, platform, image_format, arch, secureboot)\<close>.\<close>

definition build_asset_url ::
  "env \<Rightarrow> pyval \<Rightarrow> pyval \<Rightarrow> pyval \<Rightarrow> pyval \<Rightarrow> pyval \<Rightarrow> bool \<Rightarrow> exn + string" where
  "build_asset_url E schematic_id version platform image_format arch secureboot =
     (let base = ''https://factory.talos.dev/image/'' @ py_str E schematic_id @ ''/''
                 @ py_str E version
      in if platform = VStr ''nocloud'' then
           (if image_format = VStr ''iso'' then
              Inr (base @ ''/'' @ ''nocloud-'' @ py_str E arch
                   @ (if secureboot then ''-secureboot'' else []) @ ''.iso'')
            else if image_format \<in> set [VStr ''raw'', VStr ''raw.xz'', VStr ''rawxz''] then
              Inr (base @ ''/'' @ ''nocloud-'' @ py_str E arch
                   @ (if secureboot then ''-secureboot'' else []) @ ''.raw.xz'')
            else Inl (ValueError ''unsupported image_format for nocloud (use iso or raw.xz)''))
         else if platform = VStr ''metal'' \<and> image_format = VStr ''iso'' then
           Inr (base @ ''/'' @ ''metal-'' @ py_str E arch @ ''.iso'')
         else Inl (ValueError ''unsupported platform/image_format combination''))"

section \<open>The file system and the trace of effects\<close>

text \<open>
  The state the script works on is the file system, a table from paths to nodes, and the
  trace of the effects performed so far. A path is a plain string and names one node; the
  ancestors of a node are not tracked. Every operation that changes the file system or
  reaches a remote service or another process appends an event to the trace. Diagnostic
  output (\<open>print\<close>) is not part of the state.
\<close>

datatype node = File string | Dir

record world =
  fs :: "(string \<times> node) list"
  trace :: "event list"

abbreviation FileNotFoundError :: "string \<Rightarrow> exn" where
  "FileNotFoundError m \<equiv> Exn ''FileNotFoundError'' m"

abbreviation IsADirectoryError :: "string \<Rightarrow> exn" where
  "IsADirectoryError m \<equiv> Exn ''IsADirectoryError'' m"

abbreviation NotADirectoryError :: "string \<Rightarrow> exn" where
  "NotADirectoryError m \<equiv> Exn ''NotADirectoryError'' m"

abbreviation FileExistsError :: "string \<Rightarrow> exn" where
  "FileExistsError m \<equiv> Exn ''FileExistsError'' m"

text \<open>\<open>os.path.join(a, b)\<close> and \<open>os.path.exists(p)\<close> of a POSIX system.\<close>

definition path_join :: "string \<Rightarrow> string \<Rightarrow> string" where
  "path_join a b =
     (if startswith b ''/'' then b
      else if a = [] \<or> endswith a ''/'' then a @ b
      else a @ ''/'' @ b)"

definition os_path_exists :: "world \<Rightarrow> string \<Rightarrow> bool" where
  "os_path_exists w p = (map_of (fs w) p \<noteq> None)"

text \<open>
  \<open>os.listdir(d)\<close>: the names of the nodes directly under the directory \<open>d\<close>, in the
  order of the table, which stands for the arbitrary order of the operating system.
\<close>

definition child_name :: "string \<Rightarrow> string \<Rightarrow> string list" where
  "child_name d p =
     (let pre = path_join d [] in
      if startswith p pre \<and> drop (length pre) p \<noteq> [] \<and> CHR ''/'' \<notin> set (drop (length pre) p)
      then [drop (length pre) p] else [])"

definition os_listdir :: "world \<Rightarrow> string \<Rightarrow> exn + string list" where
  "os_listdir w d =
     (case map_of (fs w) d of
        None \<Rightarrow> Inl (FileNotFoundError d)
      | Some (File c) \<Rightarrow> Inl (NotADirectoryError d)
      | Some Dir \<Rightarrow> Inr (concat (map (\<lambda>(p, n). child_name d p) (fs w))))"

section \<open>Cache retention\<close>

text \<open>
  \<open>_FILE_RE = re.compile(r"^talos-(v[^-]+)-(.*)$")\<close>, applied with \<open>match\<close>; the result is
  the version and the tail. The class \<open>[^-]+\<close> must take every character up to the first
  hyphen, since a hyphen has to follow it. The dot matches no newline, and \<open>$\<close> holds at
  the end and just before a newline that ends the name.
\<close>

definition file_re_match :: "string \<Rightarrow> (string \<times> string) option" where
  "file_re_match name =
     (if \<not> startswith name ''talos-v'' then None else
      let rest = drop 7 name;
          run = takeWhile (\<lambda>c. c \<noteq> CHR ''-'') rest;
          after = dropWhile (\<lambda>c. c \<noteq> CHR ''-'') rest
      in if run = [] then None else
         case after of
           [] \<Rightarrow> None
         | h # tail \<Rightarrow>
             if CHR 0x0A \<notin> set tail then Some (CHR ''v'' # run, tail)
             else if last tail = CHR 0x0A \<and> CHR 0x0A \<notin> set (butlast tail)
               then Some (CHR ''v'' # run, butlast tail)
             else None)"

fun map_exn :: "('a \<Rightarrow> exn + 'b) \<Rightarrow> 'a list \<Rightarrow> exn + 'b list" where
  "map_exn f [] = Inr []"
| "map_exn f (x # xs) =
     bind_exn (f x) (\<lambda>y. bind_exn (map_exn f xs) (\<lambda>ys. Inr (y # ys)))"

text \<open>
  \<open>sorted(xs, key=f, reverse=True)\<close>: the keys are computed first, then the list is
  sorted by descending key, and elements with equal keys keep their order. Python does
  it by reversing, sorting stably in ascending order, and reversing again.
\<close>

definition sorted_reverse :: "('a \<Rightarrow> exn + 'k::linorder) \<Rightarrow> 'a list \<Rightarrow> exn + 'a list" where
  "sorted_reverse f xs =
     bind_exn (map_exn f xs) (\<lambda>ks.
       Inr (map snd (rev (sort_key fst (rev (zip ks xs))))))"

text \<open>
  \<open>groups.setdefault(tail, []).append(item)\<close> on a dictionary, which keeps its keys in
  the order of their first insertion.
\<close>

fun setdefault_append :: "('k \<times> 'v list) list \<Rightarrow> 'k \<Rightarrow> 'v \<Rightarrow> ('k \<times> 'v list) list" where
  "setdefault_append [] k v = [(k, [v])]"
| "setdefault_append ((k', vs) # g) k v =
     (if k' = k then (k', vs @ [v]) # g else (k', vs) # setdefault_append g k v)"

text \<open>One round of the first loop of \<open>plan_cache_cleanup\<close>.\<close>

definition scan_entry ::
  "string \<Rightarrow> (string \<times> (string \<times> string) list) list \<Rightarrow> string
     \<Rightarrow> (string \<times> (string \<times> string) list) list" where
  "scan_entry cache_dir groups name =
     (if endswith name ''.sha256'' then groups
      else case file_re_match name of
             None \<Rightarrow> groups
           | Some (version_tag, tail) \<Rightarrow>
               setdefault_append groups tail (version_tag, path_join cache_dir name))"

text \<open>One round of the inner loop: a victim and, when it exists, its sidecar.\<close>

definition with_sidecar :: "world \<Rightarrow> string \<times> string \<Rightarrow> string list" where
  "with_sidecar w item =
     (case item of (ver, victim) \<Rightarrow>
        victim # (if os_path_exists w (victim @ ''.sha256'') then [victim @ ''.sha256''] else []))"

text \<open>The body of the second loop of \<open>plan_cache_cleanup\<close>, for one group.\<close>

definition group_victims ::
  "world \<Rightarrow> int \<Rightarrow> string \<times> (string \<times> string) list \<Rightarrow> exn + string list" where
  "group_victims w keep_versions grp =
     (case grp of (tail, items) \<Rightarrow>
        bind_exn (sorted_reverse (\<lambda>x. parse_semver_for_sort (fst x)) items) (\<lambda>items_sorted.
          Inr (concat (map (with_sidecar w) (drop (nat keep_versions) items_sorted)))))"

text \<open>\<open>plan_cache_cleanup(cache_dir, keep_versions)\<close>. It reads the file system only.\<close>

definition plan_cache_cleanup :: "world \<Rightarrow> string \<Rightarrow> int \<Rightarrow> exn + string list" where
  "plan_cache_cleanup w cache_dir keep_versions =
     (if keep_versions \<le> 0 then Inr []
      else case os_listdir w cache_dir of
             Inl e \<Rightarrow> if exn_class e = ''FileNotFoundError'' then Inr [] else Inl e
           | Inr entries \<Rightarrow>
               (let groups = foldl (scan_entry cache_dir) [] entries
                in bind_exn (map_exn (group_victims w keep_versions) groups) (\<lambda>parts.
                     Inr (concat parts))))"

subsection \<open>The retention rule in the words of the specification\<close>







section \<open>Operations with effects\<close>

text \<open>
  A function of the script that has effects or reads the file system takes the state and
  returns its result, or the exception it raises, with the new state.
\<close>

type_synonym 'a io = "world \<Rightarrow> (exn + 'a) \<times> world"

definition io_return :: "'a \<Rightarrow> 'a io" where
  "io_return x = (\<lambda>w. (Inr x, w))"

definition io_raise :: "exn \<Rightarrow> 'a io" where
  "io_raise e = (\<lambda>w. (Inl e, w))"

definition io_lift :: "exn + 'a \<Rightarrow> 'a io" where
  "io_lift r = (\<lambda>w. (r, w))"

definition io_bind :: "'a io \<Rightarrow> ('a \<Rightarrow> 'b io) \<Rightarrow> 'b io" where
  "io_bind m f = (\<lambda>w. case m w of (Inl e, w') \<Rightarrow> (Inl e, w') | (Inr x, w') \<Rightarrow> f x w')"

definition emit :: "event \<Rightarrow> unit io" where
  "emit ev = (\<lambda>w. (Inr (), w\<lparr>trace := trace w @ [ev]\<rparr>))"

text \<open>
  \<open>os.path.dirname(p)\<close>, \<open>os.makedirs(p, exist_ok=True)\<close>, \<open>os.path.getsize(p)\<close>,
  \<open>os.replace(src, dst)\<close>, \<open>os.remove(p)\<close>, writing a whole file
  (\<open>open(p, "w")\<close> and \<open>write\<close>), and \<open>sha256_file(p)\<close> of the script, which reads the
  file and returns the digest of its content.
\<close>

definition os_path_dirname :: "string \<Rightarrow> string" where
  "os_path_dirname p =
     (let head = rev (dropWhile (\<lambda>c. c \<noteq> CHR ''/'') (rev p))
      in if head \<noteq> [] \<and> (\<exists>c\<in>set head. c \<noteq> CHR ''/'') then rstrip CHR ''/'' head else head)"

definition os_makedirs :: "string \<Rightarrow> unit io" where
  "os_makedirs p =
     (\<lambda>w. if p = [] then (Inl (FileNotFoundError p), w)
          else case map_of (fs w) p of
                 Some (File c) \<Rightarrow> (Inl (FileExistsError p), w)
               | Some Dir \<Rightarrow> (Inr (), w\<lparr>trace := trace w @ [Makedirs p]\<rparr>)
               | None \<Rightarrow> (Inr (), w\<lparr>fs := AList.update p Dir (fs w),
                                     trace := trace w @ [Makedirs p]\<rparr>))"

definition os_path_getsize :: "env \<Rightarrow> string \<Rightarrow> nat io" where
  "os_path_getsize E p =
     (\<lambda>w. case map_of (fs w) p of
            None \<Rightarrow> (Inl (FileNotFoundError p), w)
          | Some (File c) \<Rightarrow> (Inr (length c), w)
          | Some Dir \<Rightarrow> (Inr (dir_size E), w))"

definition sha256_file :: "env \<Rightarrow> string \<Rightarrow> string io" where
  "sha256_file E p =
     (\<lambda>w. case map_of (fs w) p of
            None \<Rightarrow> (Inl (FileNotFoundError p), w)
          | Some (File c) \<Rightarrow> (Inr (sha256_hex E c), w)
          | Some Dir \<Rightarrow> (Inl (IsADirectoryError p), w))"

definition write_file :: "string \<Rightarrow> string \<Rightarrow> unit io" where
  "write_file p content =
     (\<lambda>w. case map_of (fs w) p of
            Some Dir \<Rightarrow> (Inl (IsADirectoryError p), w)
          | _ \<Rightarrow> (Inr (), w\<lparr>fs := AList.update p (File content) (fs w),
                             trace := trace w @ [WriteFile p content]\<rparr>))"

definition os_replace :: "string \<Rightarrow> string \<Rightarrow> unit io" where
  "os_replace src dst =
     (\<lambda>w. case map_of (fs w) src of
            None \<Rightarrow> (Inl (FileNotFoundError src), w)
          | Some n \<Rightarrow>
              (case map_of (fs w) dst of
                 Some Dir \<Rightarrow> (Inl (IsADirectoryError dst), w)
               | _ \<Rightarrow> (Inr (), w\<lparr>fs := AList.update dst n (AList.delete src (fs w)),
                                  trace := trace w @ [Rename src dst]\<rparr>)))"

definition os_remove :: "string \<Rightarrow> unit io" where
  "os_remove p =
     (\<lambda>w. case map_of (fs w) p of
            None \<Rightarrow> (Inl (FileNotFoundError p), w)
          | Some Dir \<Rightarrow> (Inl (IsADirectoryError p), w)
          | Some (File c) \<Rightarrow> (Inr (), w\<lparr>fs := AList.delete p (fs w),
                                         trace := trace w @ [Remove p]\<rparr>))"

text \<open>
  \<open>shutil.rmtree(p, ignore_errors=True)\<close>: the directory and every node below it go.
\<close>

definition shutil_rmtree :: "string \<Rightarrow> unit io" where
  "shutil_rmtree p =
     (\<lambda>w. (Inr (), w\<lparr>fs := filter (\<lambda>kv. fst kv \<noteq> p \<and> \<not> startswith (fst kv) (path_join p []))
                              (fs w),
                     trace := trace w @ [Rmtree p]\<rparr>))"

text \<open>
  \<open>run(cmd)\<close>, \<open>http_json(url)\<close>, \<open>http_post_yaml_get_json(url, body)\<close> and
  \<open>http_download(url, dest_path)\<close>. The body of the POST is the YAML text of
  \<open>{"customization": customization}\<close>; the event keeps the customization.
\<close>

definition run :: "env \<Rightarrow> string list \<Rightarrow> (int \<times> string \<times> string) io" where
  "run E cmd = (\<lambda>w. (run_answer E (trace w) cmd, w\<lparr>trace := trace w @ [Run cmd]\<rparr>))"

definition http_json :: "env \<Rightarrow> string \<Rightarrow> pyval io" where
  "http_json E url =
     (\<lambda>w. (http_json_answer E (trace w) url, w\<lparr>trace := trace w @ [HttpGet url]\<rparr>))"

definition http_post_yaml_get_json :: "env \<Rightarrow> string \<Rightarrow> pyval \<Rightarrow> pyval io" where
  "http_post_yaml_get_json E url customization =
     (\<lambda>w. (http_post_answer E (trace w) url customization,
           w\<lparr>trace := trace w @ [HttpPost url customization]\<rparr>))"

definition http_download :: "env \<Rightarrow> string \<Rightarrow> string \<Rightarrow> unit io" where
  "http_download E url dest_path =
     io_bind (os_makedirs (os_path_dirname dest_path)) (\<lambda>_.
     io_bind (\<lambda>w. (http_body_answer E (trace w) url,
                   w\<lparr>trace := trace w @ [Download url (dest_path @ ''.part'')]\<rparr>)) (\<lambda>body.
     io_bind (write_file (dest_path @ ''.part'') body) (\<lambda>_.
     os_replace (dest_path @ ''.part'') dest_path)))"

section \<open>Version resolution\<close>

definition GITHUB_LATEST :: string where
  "GITHUB_LATEST = ''https://api.github.com/repos/siderolabs/talos/releases/latest''"

definition GITHUB_TAGS :: string where
  "GITHUB_TAGS = ''https://api.github.com/repos/siderolabs/talos/tags''"

definition FACTORY_SCHEMATICS :: string where
  "FACTORY_SCHEMATICS = ''https://factory.talos.dev/schematics''"

text \<open>\<open>_semver_key\<close> on a value: only a string has \<open>lstrip\<close>.\<close>

definition semver_key_val :: "pyval \<Rightarrow> exn + semver_key" where
  "semver_key_val v = (case v of VStr s \<Rightarrow> semver_key s | _ \<Rightarrow> Inl (no_attribute v ''lstrip''))"

text \<open>
  The condition \<open>t.get("name", "").startswith(minor + ".")\<close> and the list comprehension
  \<open>[t["name"] for t in tags if ...]\<close> of \<open>resolve_version\<close>.
\<close>

definition tag_matches :: "pyval \<Rightarrow> pyval \<Rightarrow> exn + bool" where
  "tag_matches minor t =
     bind_exn (py_get t ''name'' (VStr [])) (\<lambda>name.
       case name of
         VStr n \<Rightarrow> (case minor of
                      VStr m \<Rightarrow> Inr (startswith n (m @ ''.''))
                    | _ \<Rightarrow> Inl (type_error minor ''cannot be concatenated with str''))
       | _ \<Rightarrow> Inl (no_attribute name ''startswith''))"

fun matching_tags :: "pyval \<Rightarrow> pyval list \<Rightarrow> exn + pyval list" where
  "matching_tags minor [] = Inr []"
| "matching_tags minor (t # ts) =
     bind_exn (tag_matches minor t) (\<lambda>b.
       if b then bind_exn (py_getitem t ''name'') (\<lambda>n.
                 bind_exn (matching_tags minor ts) (\<lambda>rest. Inr (n # rest)))
       else matching_tags minor ts)"

text \<open>\<open>resolve_version(spec)\<close>: the version and the name of the rule that gave it.\<close>

definition resolve_version :: "env \<Rightarrow> pyval \<Rightarrow> (pyval \<times> string) io" where
  "resolve_version E spec =
     io_bind (io_lift (py_get (py_or spec (VDict [])) ''type'' (VStr ''latest''))) (\<lambda>t.
     if t = VStr ''exact'' then
       io_bind (io_lift (py_get spec ''value'' VNone)) (\<lambda>v.
         if \<not> truthy v then io_raise (ValueError ''version.type=exact requires version.value'')
         else io_return (v, ''exact''))
     else if t = VStr ''latest'' then
       io_bind (http_json E GITHUB_LATEST) (\<lambda>data.
       io_bind (io_lift (py_get data ''tag_name'' VNone)) (\<lambda>tag.
         if \<not> truthy tag
         then io_raise (RuntimeError ''Failed to resolve latest version from GitHub'')
         else io_return (tag, ''latest'')))
     else if t = VStr ''latest-in-minor'' then
       io_bind (io_lift (py_get spec ''minor'' VNone)) (\<lambda>minor.
         if \<not> truthy minor
         then io_raise (ValueError
                ''version.type=latest-in-minor requires version.minor (e.g., v1.11)'')
         else
           io_bind (http_json E GITHUB_TAGS) (\<lambda>tags.
           io_bind (io_lift (bind_exn (py_iter tags) (matching_tags minor))) (\<lambda>matching.
             if matching = []
             then io_raise (RuntimeError (''No tags found for minor '' @ py_str E minor))
             else
               io_bind (io_lift (sorted_reverse semver_key_val matching)) (\<lambda>ordered.
                 case ordered of
                   [] \<Rightarrow> io_raise (Exn ''IndexError'' ''list index out of range'')
                 | best # _ \<Rightarrow> io_return (best, ''latest-in-minor'')))))
     else io_raise (ValueError (''Unknown version.type: '' @ py_str E t)))"

section \<open>Schematics\<close>

text \<open>\<open>post_schematic_and_get_id(customization)\<close>.\<close>

definition post_schematic_and_get_id :: "env \<Rightarrow> pyval \<Rightarrow> pyval io" where
  "post_schematic_and_get_id E customization =
     io_bind (http_post_yaml_get_json E FACTORY_SCHEMATICS customization) (\<lambda>data.
     io_bind (io_lift (py_contains data ''id'')) (\<lambda>has_id.
       if \<not> has_id
       then io_raise (RuntimeError (''Factory did not return an ID: '' @ py_str E data))
       else io_lift (py_getitem data ''id'')))"

text \<open>
  What the rule \<open>latest\<close> does in a state: one GET of the latest-release address; the
  tag of the answer with the source \<open>latest\<close>, or the failure of the request, or an
  error when the answer has no tag.
\<close>

definition latest_outcome :: "env \<Rightarrow> world \<Rightarrow> (exn + pyval \<times> string) \<times> world" where
  "latest_outcome E w =
     ((case http_json_answer E (trace w) GITHUB_LATEST of
         Inl e \<Rightarrow> Inl e
       | Inr data \<Rightarrow>
           (case py_get data ''tag_name'' VNone of
              Inl e \<Rightarrow> Inl e
            | Inr tag \<Rightarrow>
                if truthy tag then Inr (tag, ''latest'')
                else Inl (RuntimeError ''Failed to resolve latest version from GitHub''))),
      w\<lparr>trace := trace w @ [HttpGet GITHUB_LATEST]\<rparr>)"

section \<open>Decompression\<close>

text \<open>
  \<open>decompress_raw_xz(src_path, dst_path)\<close>. With the module \<open>lzma\<close> the source is
  opened, the temporary file is created, and the decoded content is written to it. Without
  it, the command \<open>xz\<close> writes its output to the temporary file.
\<close>

definition read_file :: "string \<Rightarrow> string io" where
  "read_file p =
     (\<lambda>w. case map_of (fs w) p of
            None \<Rightarrow> (Inl (FileNotFoundError p), w)
          | Some (File c) \<Rightarrow> (Inr c, w)
          | Some Dir \<Rightarrow> (Inl (IsADirectoryError p), w))"

definition remove_if_present :: "string \<Rightarrow> unit io" where
  "remove_if_present p =
     (\<lambda>w. case os_remove p w of
            (Inl e, w') \<Rightarrow> if exn_class e = ''FileNotFoundError'' then (Inr (), w')
                           else (Inl e, w')
          | (Inr u, w') \<Rightarrow> (Inr u, w'))"

definition decompress_raw_xz :: "env \<Rightarrow> string \<Rightarrow> string \<Rightarrow> unit io" where
  "decompress_raw_xz E src_path dst_path =
     io_bind (os_makedirs (os_path_dirname dst_path)) (\<lambda>_.
     if have_lzma E then
       io_bind (read_file src_path) (\<lambda>packed.
       io_bind (write_file (dst_path @ ''.part'') []) (\<lambda>_.
       io_bind (io_lift (lzma_decode E packed)) (\<lambda>raw.
       io_bind (write_file (dst_path @ ''.part'') raw) (\<lambda>_.
       os_replace (dst_path @ ''.part'') dst_path))))
     else
       io_bind (run E [''bash'', ''-lc'', ''xz --version >/dev/null 2>&1'']) (\<lambda>r.
         if fst r \<noteq> 0
         then io_raise (RuntimeError (''Cannot decompress: python lzma unavailable and ''
                          @ [CHR 0x27] @ ''xz'' @ [CHR 0x27] @ '' not installed''))
         else
           io_bind (write_file (dst_path @ ''.part'') []) (\<lambda>_.
           io_bind (run E [''xz'', ''-dkc'', src_path]) (\<lambda>p.
             if fst p \<noteq> 0
             then io_bind (remove_if_present (dst_path @ ''.part'')) (\<lambda>_.
                    io_raise (RuntimeError (''xz failed: '' @ snd (snd p))))
             else
               io_bind (write_file (dst_path @ ''.part'') (fst (snd p))) (\<lambda>_.
               os_replace (dst_path @ ''.part'') dst_path)))))"

section \<open>Push\<close>

text \<open>\<open>ensure_tools_for_push()\<close>, with its loop over \<open>rsync\<close> and \<open>ssh\<close> written out.\<close>

definition ensure_tools_for_push :: "env \<Rightarrow> (bool \<times> string) io" where
  "ensure_tools_for_push E =
     io_bind (run E [''bash'', ''-lc'', ''command -v rsync'']) (\<lambda>r1.
       if fst r1 \<noteq> 0 then io_return (False, ''Missing dependency: rsync'')
       else
         io_bind (run E [''bash'', ''-lc'', ''command -v ssh'']) (\<lambda>r2.
           if fst r2 \<noteq> 0 then io_return (False, ''Missing dependency: ssh'')
           else io_return (True, [])))"

text \<open>\<open>shlex_quote\<close> on a value: only a string has \<open>replace\<close>.\<close>

definition shlex_quote_val :: "pyval \<Rightarrow> exn + string" where
  "shlex_quote_val v = (case v of VStr s \<Rightarrow> Inr (shlex_quote s) | _ \<Rightarrow> Inl (no_attribute v ''replace''))"

text \<open>\<open>push_file_to_hosts(local_file, hosts, default_iso_dir, rsync_opts, ssh_opts)\<close>: the
  loop over the hosts, with the results so far.\<close>

fun push_loop ::
  "env \<Rightarrow> string \<Rightarrow> pyval \<Rightarrow> pyval \<Rightarrow> pyval \<Rightarrow> pyval list \<Rightarrow> host_result list
     \<Rightarrow> host_result list io" where
  "push_loop E local_file default_iso_dir rsync_opts ssh_opts [] results = io_return results"
| "push_loop E local_file default_iso_dir rsync_opts ssh_opts (h # hs) results =
     io_bind (io_lift (py_getitem h ''host'')) (\<lambda>host.
     io_bind (io_lift (py_get h ''iso_dir'' default_iso_dir)) (\<lambda>dest_dir.
     io_bind (io_lift (shlex_quote_val dest_dir)) (\<lambda>quoted_dir.
     io_bind (run E [''bash'', ''-lc'',
                ''ssh '' @ py_str E ssh_opts @ '' '' @ py_str E host @ '' '' @ [CHR 0x27]
                @ ''mkdir -p '' @ quoted_dir @ [CHR 0x27]]) (\<lambda>r.
       if fst r \<noteq> 0
       then push_loop E local_file default_iso_dir rsync_opts ssh_opts hs
              (results @ [\<lparr>hr_host = host, hr_status = ''mkdir-failed'',
                           hr_stderr = snd (snd r)\<rparr>])
       else
         io_bind (run E [''bash'', ''-lc'',
                    ''rsync '' @ py_str E rsync_opts @ '' '' @ shlex_quote local_file @ '' ''
                    @ py_str E host @ '':'' @ quoted_dir @ ''/'']) (\<lambda>r2.
           push_loop E local_file default_iso_dir rsync_opts ssh_opts hs
             (results @ [\<lparr>hr_host = host,
                          hr_status = (if fst r2 = 0 then ''ok'' else ''rsync-failed''),
                          hr_stderr = snd (snd r2)\<rparr>]))))))"

definition push_file_to_hosts ::
  "env \<Rightarrow> string \<Rightarrow> pyval \<Rightarrow> pyval \<Rightarrow> pyval \<Rightarrow> pyval \<Rightarrow> host_result list io" where
  "push_file_to_hosts E local_file hosts default_iso_dir rsync_opts ssh_opts =
     io_bind (io_lift (py_iter hosts)) (\<lambda>hs.
       push_loop E local_file default_iso_dir rsync_opts ssh_opts hs [])"

section \<open>Executing a cleanup and planning a purge\<close>

text \<open>\<open>execute_cache_cleanup(paths_to_delete)\<close>: the loop, with the list \<open>removed\<close> so
  far. A path that is missing is passed over; any other failure is reported in the list.\<close>

fun execute_loop :: "string list \<Rightarrow> string list \<Rightarrow> string list io" where
  "execute_loop [] removed = io_return removed"
| "execute_loop (p # ps) removed =
     (\<lambda>w. case (if map_of (fs w) p = Some Dir then shutil_rmtree p w else os_remove p w) of
            (Inr u, w') \<Rightarrow> execute_loop ps (removed @ [p]) w'
          | (Inl e, w') \<Rightarrow>
              if exn_class e = ''FileNotFoundError'' then execute_loop ps removed w'
              else execute_loop ps (removed @ [''ERROR:'' @ p @ '':'' @ exn_msg e]) w')"

definition execute_cache_cleanup :: "string list \<Rightarrow> string list io" where
  "execute_cache_cleanup paths_to_delete = execute_loop paths_to_delete []"

text \<open>\<open>plan_full_purge(cache_dir)\<close>.\<close>

definition plan_full_purge :: "world \<Rightarrow> string \<Rightarrow> exn + string list" where
  "plan_full_purge w cache_dir =
     (case os_listdir w cache_dir of
        Inl e \<Rightarrow> if exn_class e = ''FileNotFoundError'' then Inr [] else Inl e
      | Inr entries \<Rightarrow> Inr (map (path_join cache_dir) entries))"

section \<open>Resolution of the manifest path\<close>

text \<open>\<open>os.path.splitext(p)\<close> and \<open>manifest_path_for_order(orderid, manifest_cfg)\<close>.\<close>

definition os_path_splitext :: "string \<Rightarrow> string \<times> string" where
  "os_path_splitext p =
     (let base = last_component CHR ''/'' p;
          dir = take (length p - length base) p;
          stem = rev (tl (dropWhile (\<lambda>c. c \<noteq> CHR ''.'') (rev base)))
      in if CHR ''.'' \<in> set base \<and> (\<exists>c\<in>set stem. c \<noteq> CHR ''.'')
         then (dir @ stem, drop (length stem) base)
         else (p, []))"

definition manifest_path_for_order :: "env \<Rightarrow> string \<Rightarrow> pyval \<Rightarrow> string io" where
  "manifest_path_for_order E orderid manifest_cfg =
     io_bind (io_lift (py_get manifest_cfg ''path_template'' VNone)) (\<lambda>tmpl.
     if truthy tmpl then
       io_lift (case tmpl of VStr t \<Rightarrow> str_format E t orderid
                | _ \<Rightarrow> Inl (no_attribute tmpl ''format''))
     else
       io_bind (io_lift (py_get manifest_cfg ''dir'' VNone)) (\<lambda>mdir.
       if truthy mdir then
         io_bind (io_lift (as_path mdir)) (\<lambda>d.
         io_bind (os_makedirs d) (\<lambda>_.
         io_return (path_join d (''manifest-'' @ orderid @ ''.yaml''))))
       else
         io_bind (io_lift (py_get manifest_cfg ''path'' VNone)) (\<lambda>p.
         if truthy p then
           io_lift (bind_exn (py_contains p ''{orderid}'') (\<lambda>has.
             case p of
               VStr s \<Rightarrow>
                 if has then Inr (py_replace ''{orderid}'' orderid s)
                 else Inr (fst (os_path_splitext s) @ ''-'' @ orderid
                           @ (if snd (os_path_splitext s) = [] then ''.yaml''
                              else snd (os_path_splitext s)))
             | _ \<Rightarrow> if has then Inl (no_attribute p ''replace'')
                    else Inl (type_error p ''is no str, bytes or os.PathLike'')))
         else io_return (abspath E (''./manifest-'' @ orderid @ ''.yaml'')))))"

section \<open>Processing the positions of an order\<close>

text \<open>
  The values that \<open>process_positions\<close> reads from the defaults before its loop.
\<close>

record ctx =
  c_defaults :: pyval
  c_dry_run :: bool
  c_cache_dir :: string
  c_iso_dir :: pyval
  c_push_enabled_default :: bool
  c_rsync_opts :: pyval
  c_ssh_opts :: pyval
  c_prefer_decompressed_default :: bool

text \<open>
  The condition of the generator in \<open>need_push = any(...)\<close> for one position, and
  \<open>any\<close>, which stops at the first position that holds.
\<close>

definition wants_push :: "bool \<Rightarrow> pyval \<Rightarrow> exn + bool" where
  "wants_push push_enabled_default it =
     bind_exn (py_get it ''push'' (VDict [])) (\<lambda>p.
     bind_exn (py_get p ''hosts'' VNone) (\<lambda>hosts.
       if \<not> truthy hosts then Inr False
       else bind_exn (py_get p ''enabled'' (VBool push_enabled_default)) (\<lambda>enabled.
              Inr (truthy enabled))))"

fun any_push :: "bool \<Rightarrow> pyval list \<Rightarrow> exn + bool" where
  "any_push d [] = Inr False"
| "any_push d (it # its) =
     bind_exn (wants_push d it) (\<lambda>b. if b then Inr True else any_push d its)"

text \<open>
  The download step of \<open>process_positions\<close> (the lines from \<open>download if needed\<close> to the
  writing of the sidecar): the new value of \<open>entry["download"]\<close>.
\<close>

definition is_cached :: "env \<Rightarrow> string \<Rightarrow> bool io" where
  "is_cached E local_path =
     (\<lambda>w. if os_path_exists w local_path
          then io_bind (os_path_getsize E local_path) (\<lambda>n. io_return (0 < n)) w
          else (Inr False, w))"

definition fetch_artifact :: "env \<Rightarrow> string \<Rightarrow> string \<Rightarrow> download_info io" where
  "fetch_artifact E url local_path =
     io_bind (is_cached E local_path) (\<lambda>cached.
     io_bind (if \<not> cached then http_download E url local_path else io_return ()) (\<lambda>_.
     io_bind (sha256_file E local_path) (\<lambda>sha.
     io_bind (os_path_getsize E local_path) (\<lambda>size_bytes.
     io_bind (write_file (local_path @ ''.sha256'') (sha @ [CHR 0x0A])) (\<lambda>_.
     io_return \<lparr>dl_path = local_path, dl_done = (\<not> cached), dl_sha256 = Some sha,
                dl_size_bytes = Some size_bytes\<rparr>)))))"

text \<open>\<open>re.sub(r"\.xz$", "", p)\<close> and the decompression step.\<close>

definition strip_xz :: "string \<Rightarrow> string" where
  "strip_xz p =
     (if endswith p ''.xz'' then take (length p - 3) p
      else if endswith p (''.xz'' @ [CHR 0x0A]) then take (length p - 4) p @ [CHR 0x0A]
      else p)"

definition decompress_step ::
  "env \<Rightarrow> pyval \<Rightarrow> pyval \<Rightarrow> string \<Rightarrow> decompressed_info option io" where
  "decompress_step E it image_format local_path =
     io_bind (io_lift (if image_format \<in> set [VStr ''raw.xz'', VStr ''rawxz'']
                       then py_get it ''decompress_raw'' (VBool False)
                       else Inr (VBool False))) (\<lambda>wanted.
     if \<not> truthy wanted then io_return None
     else
       io_bind (decompress_raw_xz E local_path (strip_xz local_path)) (\<lambda>_.
       io_bind (sha256_file E (strip_xz local_path)) (\<lambda>sha.
       io_bind (os_path_getsize E (strip_xz local_path)) (\<lambda>size_bytes.
       io_bind (write_file (strip_xz local_path @ ''.sha256'') (sha @ [CHR 0x0A])) (\<lambda>_.
       io_return (Some \<lparr>dc_path = strip_xz local_path, dc_sha256 = sha,
                         dc_size_bytes = size_bytes\<rparr>))))))"

text \<open>The push step: the new value of \<open>entry["pushed"]\<close>.\<close>

definition push_step ::
  "env \<Rightarrow> ctx \<Rightarrow> pyval \<Rightarrow> string \<Rightarrow> decompressed_info option \<Rightarrow> host_result list io" where
  "push_step E c it local_path decompressed =
     io_bind (io_lift (py_get it ''push'' (VDict []))) (\<lambda>pc.
     io_bind (io_lift (py_get (py_or pc (VDict [])) ''enabled''
                         (VBool (c_push_enabled_default c)))) (\<lambda>push_enabled.
     io_bind (io_lift (py_get (py_or pc (VDict [])) ''hosts'' (VList []))) (\<lambda>hosts.
     io_bind (io_lift (py_get (py_or pc (VDict [])) ''prefer_decompressed''
                         (VBool (c_prefer_decompressed_default c)))) (\<lambda>prefer_decompressed.
       if truthy push_enabled \<and> truthy hosts then
         push_file_to_hosts E
           (case decompressed of
              None \<Rightarrow> local_path
            | Some d \<Rightarrow> if truthy prefer_decompressed \<and> dc_path d \<noteq> [] then dc_path d
                        else local_path)
           hosts (c_iso_dir c) (c_rsync_opts c) (c_ssh_opts c)
       else io_return []))))"

definition lower_val :: "pyval \<Rightarrow> exn + string" where
  "lower_val v = (case v of VStr s \<Rightarrow> Inr (py_lower s) | _ \<Rightarrow> Inl (no_attribute v ''lower''))"

text \<open>
  The body of the \<open>try\<close> statement for one position, in two parts. The first part
  builds the entry of an applicable position: architecture, version, schematic id,
  address, local path, and the dictionary \<open>entry\<close> with nothing downloaded yet.
\<close>

definition build_entry :: "env \<Rightarrow> ctx \<Rightarrow> pyval \<Rightarrow> pyval \<Rightarrow> artifact io" where
  "build_entry E c it pos_name =
     io_bind (io_lift (py_get (c_defaults c) ''arch'' (VStr ''amd64''))) (\<lambda>arch_default.
     io_bind (io_lift (py_get it ''arch'' arch_default)) (\<lambda>arch.
     io_bind (io_lift (py_get it ''version'' VNone)) (\<lambda>spec.
     io_bind (resolve_version E spec) (\<lambda>resolved.
     io_bind (io_lift (py_get it ''schematic_id'' VNone)) (\<lambda>given_id.
     io_bind (io_lift (py_get it ''customization'' VNone)) (\<lambda>customization.
     io_bind (if \<not> truthy given_id then
                (if \<not> truthy customization
                 then io_raise (ValueError ''missing schematic_id or customization'')
                 else if c_dry_run c then io_return (VStr ''<to-be-created>'')
                 else post_schematic_and_get_id E customization)
              else io_return given_id) (\<lambda>schematic_id.
     io_bind (io_lift (py_get it ''platform'' (VStr ''nocloud''))) (\<lambda>platform.
     io_bind (io_lift (py_get it ''secureboot'' (VBool False))) (\<lambda>secureboot.
     io_bind (io_lift (py_get it ''image_format'' (VStr ''iso''))) (\<lambda>image_format.
     io_bind (io_lift (build_asset_url E schematic_id (fst resolved) platform image_format arch
                         (truthy secureboot))) (\<lambda>url.
     io_bind (os_makedirs (os_path_dirname
                (path_join (c_cache_dir c)
                   (''talos-'' @ py_str E (fst resolved) @ ''-''
                    @ last_component CHR ''/'' (rstrip CHR ''/'' url))))) (\<lambda>_.
     io_bind (io_lift (py_get it ''customization'' (VDict []))) (\<lambda>cust.
     io_bind (io_lift (py_get cust ''systemExtensions'' (VDict []))) (\<lambda>features.
     io_bind (\<lambda>w. (Inr (time_utc E (trace w)), w)) (\<lambda>now.
       io_return
         \<lparr> a_name = pos_name, a_product = ''talos'', a_platform = platform,
           a_arch = arch, a_version = fst resolved, a_version_source = snd resolved,
           a_secureboot = truthy secureboot, a_image_format = image_format,
           a_schematic_id = schematic_id, a_url = url, a_cache_dir = c_cache_dir c,
           a_download =
             \<lparr>dl_path = path_join (c_cache_dir c)
                          (''talos-'' @ py_str E (fst resolved) @ ''-''
                           @ last_component CHR ''/'' (rstrip CHR ''/'' url)),
              dl_done = False, dl_sha256 = None, dl_size_bytes = None\<rparr>,
           a_decompressed = None, a_pushed = [], a_features = features,
           a_timestamp_utc = now \<rparr>)))))))))))))))"

text \<open>
  The whole body: a position of another product is passed over (the result is \<open>None\<close>);
  in a dry run the entry is appended as it was built; otherwise the image is downloaded,
  decompressed and pushed as asked, and the entry is appended with the results.
\<close>

definition process_item :: "env \<Rightarrow> ctx \<Rightarrow> pyval \<Rightarrow> pyval \<Rightarrow> artifact option io" where
  "process_item E c it pos_name =
     io_bind (io_lift (py_get it ''product'' VNone)) (\<lambda>product.
     io_bind (io_lift (lower_val (py_or product (VStr [])))) (\<lambda>prod.
     if prod \<noteq> ''talos'' then io_return None
     else
       io_bind (build_entry E c it pos_name) (\<lambda>entry.
       if c_dry_run c then io_return (Some entry)
       else
         io_bind (fetch_artifact E (a_url entry) (dl_path (a_download entry))) (\<lambda>download.
         io_bind (decompress_step E it (a_image_format entry) (dl_path (a_download entry)))
           (\<lambda>decompressed.
         io_bind (push_step E c it (dl_path (a_download entry)) decompressed) (\<lambda>pushed.
         io_return (Some (entry\<lparr>a_download := download, a_decompressed := decompressed,
                                 a_pushed := pushed\<rparr>))))))))"

text \<open>
  The loop over the positions: the name is read before the \<open>try\<close> statement, and the
  handler turns an exception of the body into an error entry.
\<close>

definition position_error :: "pyval \<Rightarrow> exn \<Rightarrow> entry" where
  "position_error pos_name e =
     PositionError pos_name (''position failed: '' @ exn_class e @ '': '' @ exn_msg e)"

definition pos_name_of :: "pyval \<Rightarrow> exn + pyval" where
  "pos_name_of it = bind_exn (py_get it ''name'' VNone) (\<lambda>n. Inr (py_or n (VStr ''<unnamed>'')))"

fun positions_loop :: "env \<Rightarrow> ctx \<Rightarrow> pyval list \<Rightarrow> entry list \<Rightarrow> entry list io" where
  "positions_loop E c [] entries = io_return entries"
| "positions_loop E c (it # its) entries =
     io_bind (io_lift (pos_name_of it)) (\<lambda>pos_name.
       (\<lambda>w. case process_item E c it pos_name w of
              (Inr None, w') \<Rightarrow> positions_loop E c its entries w'
            | (Inr (Some a), w') \<Rightarrow> positions_loop E c its (entries @ [Artifact a]) w'
            | (Inl e, w') \<Rightarrow>
                positions_loop E c its (entries @ [position_error pos_name e]) w'))"

text \<open>
  \<open>process_positions(orderid, positions, defaults, dry_run)\<close>. First the defaults are
  read and the cache directory is made; then the push tools are checked when a position
  asks for a push and the run is no dry run; then the loop runs. The order id is used
  for diagnostic output only.
\<close>

definition read_defaults :: "pyval \<Rightarrow> bool \<Rightarrow> ctx io" where
  "read_defaults defaults dry_run =
     io_bind (io_lift (py_get defaults ''cache_dir'' (VStr ''/var/cache/talos-sync''))) (\<lambda>cd.
     io_bind (io_lift (py_get defaults ''proxmox_default_iso_dir''
                         (VStr ''/var/lib/vz/template/iso''))) (\<lambda>iso_dir.
     io_bind (io_lift (as_path cd)) (\<lambda>cache_dir.
     io_bind (os_makedirs cache_dir) (\<lambda>_.
     io_bind (io_lift (py_get defaults ''push'' (VDict []))) (\<lambda>pd.
     io_bind (io_lift (py_get (py_or pd (VDict [])) ''enabled'' (VBool False))) (\<lambda>enabled.
     io_bind (io_lift (py_get (py_or pd (VDict [])) ''rsync_opts''
                         (VStr ''-av --progress --inplace''))) (\<lambda>rsync_opts.
     io_bind (io_lift (py_get (py_or pd (VDict [])) ''ssh_opts''
                         (VStr ''-o BatchMode=yes''))) (\<lambda>ssh_opts.
     io_bind (io_lift (py_get (py_or pd (VDict [])) ''prefer_decompressed''
                         (VBool False))) (\<lambda>prefer.
       io_return
         \<lparr> c_defaults = defaults, c_dry_run = dry_run, c_cache_dir = cache_dir,
           c_iso_dir = iso_dir, c_push_enabled_default = truthy enabled,
           c_rsync_opts = rsync_opts, c_ssh_opts = ssh_opts,
           c_prefer_decompressed_default = truthy prefer \<rparr>)))))))))"

definition process_positions ::
  "env \<Rightarrow> string \<Rightarrow> pyval \<Rightarrow> pyval \<Rightarrow> bool \<Rightarrow> entry list io" where
  "process_positions E orderid positions defaults dry_run =
     io_bind (read_defaults defaults dry_run) (\<lambda>c.
     io_bind (io_lift (bind_exn (py_iter positions)
                         (any_push (c_push_enabled_default c)))) (\<lambda>need_push.
     io_bind (if need_push \<and> \<not> dry_run then
                io_bind (ensure_tools_for_push E) (\<lambda>r.
                  if \<not> fst r then io_raise (RuntimeError (snd r)) else io_return ())
              else io_return ()) (\<lambda>_.
     io_bind (io_lift (py_iter positions)) (\<lambda>its.
       positions_loop E c its []))))"

section \<open>The run over all orders\<close>

text \<open>
  \<open>main\<close> from the point where the configuration and the orders are loaded and the cache
  policy is read: the arguments are the two file names, the two flags folded into
  \<open>dry_run\<close> and the policy, the defaults, the manifest configuration and the list of
  orders. The result is the list of the manifests, each with its path; in a dry run a
  manifest is printed, otherwise it is written to its path.
\<close>

definition order_error :: "exn \<Rightarrow> entry" where
  "order_error e = OrderError (''order failed: '' @ exn_class e @ '': '' @ exn_msg e)"

text \<open>The \<open>try\<close> statement around \<open>process_positions\<close> in \<open>main\<close>.\<close>

definition order_entries ::
  "env \<Rightarrow> string \<Rightarrow> pyval \<Rightarrow> pyval \<Rightarrow> bool \<Rightarrow> entry list io" where
  "order_entries E orderid positions defaults dry_run =
     (\<lambda>w. case process_positions E orderid positions defaults dry_run w of
            (Inl e, w') \<Rightarrow> (Inr [order_error e], w')
          | (Inr entries, w') \<Rightarrow> (Inr entries, w'))"

fun orders_loop ::
  "env \<Rightarrow> string \<Rightarrow> string \<Rightarrow> bool \<Rightarrow> policy \<Rightarrow> pyval \<Rightarrow> pyval \<Rightarrow> pyval list
     \<Rightarrow> (string \<times> manifest) list \<Rightarrow> (string \<times> manifest) list io" where
  "orders_loop E config orders_file dry_run pol defaults manifest_cfg [] done = io_return done"
| "orders_loop E config orders_file dry_run pol defaults manifest_cfg (order # rest) done =
     io_bind (io_lift (py_get order ''orderid'' (VStr []))) (\<lambda>oid.
     io_bind (io_lift (py_get order ''customer'' (VStr []))) (\<lambda>customer.
     io_bind (io_lift (py_get order ''positions'' (VList []))) (\<lambda>pv.
     if py_strip (py_str E oid) = []
     then io_raise (ValueError (''Each order must have a non-empty '' @ [CHR 0x27] @ ''orderid''
                      @ [CHR 0x27]))
     else
     io_bind (order_entries E (py_strip (py_str E oid)) (py_or pv (VList [])) defaults dry_run)
       (\<lambda>entries.
     io_bind (manifest_path_for_order E (py_strip (py_str E oid)) manifest_cfg) (\<lambda>manifest_path.
     io_bind (\<lambda>w. (Inr (time_utc E (trace w)), w)) (\<lambda>now.
     io_bind (io_lift (py_len (py_or pv (VList [])))) (\<lambda>positions_count.
     io_bind (os_makedirs (os_path_dirname manifest_path)) (\<lambda>_.
     io_bind (if dry_run then io_return ()
              else write_file manifest_path
                     (yaml_dump E \<lparr> m_generated_at = now, m_orderid = py_strip (py_str E oid),
                        m_customer = customer, m_positions_count = positions_count,
                        m_source_config = abspath E config,
                        m_source_orders = abspath E orders_file,
                        m_cache_policy = pol, m_entries = entries \<rparr>)) (\<lambda>_.
     orders_loop E config orders_file dry_run pol defaults manifest_cfg rest
       (done @ [(manifest_path,
                 \<lparr> m_generated_at = now, m_orderid = py_strip (py_str E oid),
                   m_customer = customer, m_positions_count = positions_count,
                   m_source_config = abspath E config,
                   m_source_orders = abspath E orders_file,
                   m_cache_policy = pol, m_entries = entries \<rparr>)]))))))))))"

definition main_run ::
  "env \<Rightarrow> string \<Rightarrow> string \<Rightarrow> bool \<Rightarrow> policy \<Rightarrow> pyval \<Rightarrow> pyval \<Rightarrow> pyval
     \<Rightarrow> (string \<times> manifest) list io" where
  "main_run E config orders_file dry_run pol defaults manifest_cfg orders_list =
     io_bind (io_lift (py_get defaults ''cache_dir'' (VStr ''/var/cache/talos-sync''))) (\<lambda>cd.
     io_bind (io_lift (as_path cd)) (\<lambda>cache_dir.
     io_bind (os_makedirs cache_dir) (\<lambda>_.
     io_bind (if pol_purge_before pol then
                io_bind (\<lambda>w. (plan_full_purge w cache_dir, w)) (\<lambda>purge_list.
                  if dry_run \<or> purge_list = [] then io_return ()
                  else io_bind (execute_cache_cleanup purge_list) (\<lambda>_. io_return ()))
              else io_return ()) (\<lambda>_.
     io_bind (io_lift (py_iter orders_list)) (\<lambda>orders.
     io_bind (orders_loop E config orders_file dry_run pol defaults manifest_cfg orders [])
       (\<lambda>manifests.
     io_bind (if pol_enabled pol then
                io_bind (\<lambda>w. (plan_cache_cleanup w cache_dir (pol_keep_versions pol), w))
                  (\<lambda>cleanup_plan.
                  if dry_run \<or> cleanup_plan = [] then io_return ()
                  else io_bind (execute_cache_cleanup cleanup_plan) (\<lambda>_. io_return ()))
              else io_return ()) (\<lambda>_.
     io_return manifests)))))))"

section \<open>Notions for the statements about a run\<close>

text \<open>
  A position is passed over when its product is a string other than \<open>talos\<close>, whatever
  its case; every other position is applicable.
\<close>

definition skipped :: "pyval \<Rightarrow> bool" where
  "skipped it =
     (case bind_exn (py_get it ''product'' VNone) (\<lambda>p. lower_val (py_or p (VStr []))) of
        Inl e \<Rightarrow> False
      | Inr s \<Rightarrow> s \<noteq> ''talos'')"

definition is_mapping :: "pyval \<Rightarrow> bool" where
  "is_mapping v = (case v of VDict kvs \<Rightarrow> True | _ \<Rightarrow> False)"

text \<open>
  The events of planning: creating a directory, and the GET of one of the two release
  addresses. A step of planning adds only such events to the trace and leaves every file
  with its content, neither adding nor removing one.
\<close>

definition planning_event :: "event \<Rightarrow> bool" where
  "planning_event ev =
     (case ev of
        Makedirs p \<Rightarrow> True
      | HttpGet url \<Rightarrow> url = GITHUB_LATEST \<or> url = GITHUB_TAGS
      | _ \<Rightarrow> False)"

definition plan_step :: "world \<Rightarrow> world \<Rightarrow> bool" where
  "plan_step w w' =
     ((\<exists>evs. trace w' = trace w @ evs \<and> list_all planning_event evs)
      \<and> (\<forall>p content. (map_of (fs w') p = Some (File content))
                       = (map_of (fs w) p = Some (File content))))"

definition plan_only :: "'a io \<Rightarrow> bool" where
  "plan_only m = (\<forall>w. plan_step w (snd (m w)))"

text \<open>
  A projected entry: an artifact entry with nothing downloaded, no checksum, no size,
  nothing decompressed and nothing pushed, or an error entry.
\<close>

definition projected :: "entry \<Rightarrow> bool" where
  "projected e =
     (case e of
        Artifact a \<Rightarrow> \<not> dl_done (a_download a) \<and> dl_sha256 (a_download a) = None
                      \<and> dl_size_bytes (a_download a) = None \<and> a_decompressed a = None
                      \<and> a_pushed a = []
      | PositionError n m \<Rightarrow> True
      | OrderError m \<Rightarrow> True)"

text \<open>An environment for concrete runs: \<open>repr\<close> of a container is not needed there.\<close>

definition env0 :: env where
  "env0 = \<lparr>
     repr_of = (\<lambda>v. ''<container>''),
     http_json_answer = (\<lambda>tr url.
       if url = GITHUB_LATEST then Inr (VDict [(''tag_name'', VStr ''v1.11.2'')])
       else if url = GITHUB_TAGS then
         Inr (VList [VDict [(''name'', VStr ''v1.11.0'')], VDict [(''name'', VStr ''v1.11.2-rc.1'')],
                     VDict [(''name'', VStr ''v1.11.1'')], VDict [(''name'', VStr ''v1.10.9'')]])
       else Inl (Exn ''HTTPError'' ''HTTP Error 404: Not Found'')),
     http_post_answer = (\<lambda>tr url c. Inr (VDict [(''id'', VStr ''5ch3m4'')])),
     http_body_answer = (\<lambda>tr url. Inr ''IMAGE''),
     run_answer = (\<lambda>tr cmd. Inr (0, [], [])),
     sha256_hex = (\<lambda>c. ''sha256 of '' @ c),
     have_lzma = True,
     lzma_decode = (\<lambda>c. Inr (''decoded '' @ c)),
     dir_size = 4096,
     time_utc = (\<lambda>tr. ''2024-01-01T00:00:00Z''),
     str_format = (\<lambda>tmpl orderid. Inr tmpl),
     abspath = (\<lambda>p. ''/cwd/'' @ (if startswith p ''./'' then drop 2 p else p)),
     yaml_dump = (\<lambda>m. ''manifest of '' @ m_orderid m) \<rparr>"

text \<open>A cache directory that holds one family of three versions with their sidecars.\<close>

definition w0 :: world where
  "w0 = \<lparr> fs = [], trace = [] \<rparr>"


text \<open>
  Three positions of an order, the second with an unknown version type, and a fourth
  for another product. A context of a dry run and one of a real run.
\<close>

definition item_a :: pyval where
  "item_a = VDict [(''name'', VStr ''a''), (''product'', VStr ''talos''),
      (''version'', VDict [(''type'', VStr ''exact''), (''value'', VStr ''v1.11.0'')]),
      (''schematic_id'', VStr ''abc'')]"

definition item_b :: pyval where
  "item_b = VDict [(''name'', VStr ''b''), (''product'', VStr ''talos''),
      (''version'', VDict [(''type'', VStr ''newest'')]),
      (''schematic_id'', VStr ''abc'')]"

definition item_c :: pyval where
  "item_c = VDict [(''name'', VStr ''c''), (''product'', VStr ''Talos''),
      (''customization'', VDict [(''systemExtensions'', VList [VStr ''qemu''])]),
      (''image_format'', VStr ''raw.xz''), (''secureboot'', VBool True),
      (''push'', VDict [(''enabled'', VBool True),
                        (''hosts'', VList [VDict [(''host'', VStr ''pve1'')]])])]"

definition item_d :: pyval where
  "item_d = VDict [(''name'', VStr ''d''), (''product'', VStr ''debian'')]"

definition ctx_plan :: ctx where
  "ctx_plan = \<lparr> c_defaults = VDict [(''cache_dir'', VStr ''/c'')], c_dry_run = True,
       c_cache_dir = ''/c'', c_iso_dir = VStr ''/var/lib/vz/template/iso'',
       c_push_enabled_default = False, c_rsync_opts = VStr ''-av --progress --inplace'',
       c_ssh_opts = VStr ''-o BatchMode=yes'', c_prefer_decompressed_default = False \<rparr>"

text \<open>An environment in which \<open>rsync\<close> is not installed.\<close>

definition env_no_rsync :: env where
  "env_no_rsync = env0 \<lparr> run_answer := (\<lambda>tr cmd.
       if cmd = [''bash'', ''-lc'', ''command -v rsync''] then Inr (1, [], [])
       else Inr (0, [], [])) \<rparr>"

text \<open>
  Defaults that name the cache directory, a cache policy, and two orders: the first asks
  for a push, the second does not.
\<close>

definition defaults_c :: pyval where
  "defaults_c = VDict [(''cache_dir'', VStr ''/c'')]"

definition policy3 :: policy where
  "policy3 = \<lparr> pol_enabled = True, pol_keep_versions = 3, pol_purge_before = False \<rparr>"

definition two_orders :: pyval where
  "two_orders = VList [VDict [(''orderid'', VInt 1), (''positions'', VList [item_c])],
                       VDict [(''orderid'', VInt 2), (''positions'', VList [item_a])]]"

text \<open>A cache directory with one image, and an empty one.\<close>

definition cached1 :: world where
  "cached1 = \<lparr> fs = [(''/c'', Dir), (''/c/talos-v1.11.0-nocloud-amd64.iso'', File ''IMAGE'')],
               trace = [] \<rparr>"

definition empty_cache :: world where
  "empty_cache = \<lparr> fs = [(''/c'', Dir)], trace = [] \<rparr>"

section \<open>Properties of the sort key\<close>








section \<open>The claims about the sort key and the asset URL\<close>

text \<open>
  Claim C5, as amended. For every schematic id, version, architecture and secure-boot flag
  the asset locator returns \<open>base/image/id/version/nocloud-arch[-secureboot].iso\<close> for
  (nocloud, iso), \<open>base/image/id/version/nocloud-arch[-secureboot].raw.xz\<close> for
  (nocloud, raw.xz) and \<open>base/image/id/version/metal-arch.iso\<close> for (metal, iso), with
  base \<open>https://factory.talos.dev\<close>. Every combination of platform and image format
  other than these three and the two accepted spellings (nocloud, raw) and
  (nocloud, rawxz) of the raw.xz image fails with a \<open>ValueError\<close>, whatever the other
  arguments are.
\<close>

theorem build_asset_url_supported:
  "build_asset_url E (VStr sid) (VStr ver) (VStr ''nocloud'') (VStr ''iso'') (VStr arch) sb
     = Inr (''https://factory.talos.dev'' @ ''/image/'' @ sid @ ''/'' @ ver @ ''/nocloud-'' @ arch
            @ (if sb then ''-secureboot'' else []) @ ''.iso'')
   \<and> build_asset_url E (VStr sid) (VStr ver) (VStr ''nocloud'') (VStr ''raw.xz'') (VStr arch) sb
     = Inr (''https://factory.talos.dev'' @ ''/image/'' @ sid @ ''/'' @ ver @ ''/nocloud-'' @ arch
            @ (if sb then ''-secureboot'' else []) @ ''.raw.xz'')
   \<and> build_asset_url E (VStr sid) (VStr ver) (VStr ''metal'') (VStr ''iso'') (VStr arch) sb
     = Inr (''https://factory.talos.dev'' @ ''/image/'' @ sid @ ''/'' @ ver @ ''/metal-'' @ arch
            @ ''.iso'')
   \<and> ((platform, image_format) \<notin>
          {(VStr ''nocloud'', VStr ''iso''), (VStr ''nocloud'', VStr ''raw.xz''),
           (VStr ''nocloud'', VStr ''raw''), (VStr ''nocloud'', VStr ''rawxz''),
           (VStr ''metal'', VStr ''iso'')}
        \<longrightarrow> (\<exists>m. build_asset_url E schematic_id version platform image_format arch' sb
                   = Inl (ValueError m)))"
  by (auto simp: build_asset_url_def Let_def)

text \<open>
  The theorem at the inputs of the specification's example: (metal, raw.xz) is refused,
  and (nocloud, raw.xz) with secure boot gives the decorated name.
\<close>

theorem build_asset_url_supported_witness:
  "(VStr ''metal'', VStr ''raw.xz'') \<notin>
          {(VStr ''nocloud'', VStr ''iso''), (VStr ''nocloud'', VStr ''raw.xz''),
           (VStr ''nocloud'', VStr ''raw''), (VStr ''nocloud'', VStr ''rawxz''),
           (VStr ''metal'', VStr ''iso'')}
   \<and> (\<exists>m. build_asset_url env0 (VStr ''abc'') (VStr ''v1.11.0'') (VStr ''metal'')
             (VStr ''raw.xz'') (VStr ''amd64'') True = Inl (ValueError m))
   \<and> build_asset_url env0 (VStr ''abc'') (VStr ''v1.11.0'') (VStr ''nocloud'') (VStr ''raw.xz'')
        (VStr ''amd64'') True
       = Inr ''https://factory.talos.dev/image/abc/v1.11.0/nocloud-amd64-secureboot.raw.xz''"
  using build_asset_url_supported [of env0 "''abc''" "''v1.11.0''" "''amd64''" True
      "VStr ''metal''" "VStr ''raw.xz''" "VStr ''abc''" "VStr ''v1.11.0''" "VStr ''amd64''"]
  by simp

text \<open>
  Claim C5 as it is written fails: (nocloud, raw) is none of the three combinations it
  lists, and the locator answers it with the raw.xz address.
\<close>

theorem build_asset_url_alias_counterexample:
  "build_asset_url env0 (VStr ''abc'') (VStr ''v1.11.0'') (VStr ''nocloud'') (VStr ''raw'')
     (VStr ''amd64'') False
     = Inr ''https://factory.talos.dev/image/abc/v1.11.0/nocloud-amd64.raw.xz''"
  by (simp add: build_asset_url_def)

text \<open>
  Claim C9. For every schematic id, version and architecture the asset locator, called
  with platform metal and image format iso, returns \<open>base/image/id/version/metal-arch.iso\<close>
  for both values of the secure-boot flag: the flag is neither refused nor put into the
  name.
\<close>

theorem build_asset_url_metal_ignores_secureboot:
  "build_asset_url E (VStr sid) (VStr ver) (VStr ''metal'') (VStr ''iso'') (VStr arch) secureboot
     = Inr (''https://factory.talos.dev'' @ ''/image/'' @ sid @ ''/'' @ ver @ ''/metal-'' @ arch
            @ ''.iso'')"
  by (simp add: build_asset_url_def)






section \<open>The cleanup plan\<close>








lemma tails_snoc:
  "rev (remdups (rev (xs @ [x]))) =
     (if x \<in> set xs then rev (remdups (rev xs)) else rev (remdups (rev xs)) @ [x])"
  by simp








section \<open>The version specification\<close>

lemma resolve_version_latest:
  assumes "py_get (py_or spec (VDict [])) ''type'' (VStr ''latest'') = Inr (VStr ''latest'')"
  shows "resolve_version E spec w = latest_outcome E w"
  using assms
  by (auto simp: resolve_version_def latest_outcome_def io_bind_def io_lift_def io_raise_def
      io_return_def http_json_def split: sum.splits)

lemma resolve_version_unknown:
  assumes "spec = VDict kvs" and "map_of kvs ''type'' = Some t"
    and "t \<notin> {VStr ''exact'', VStr ''latest'', VStr ''latest-in-minor''}"
  shows "resolve_version E spec w = (Inl (ValueError (''Unknown version.type: '' @ py_str E t)), w)"
proof -
  have "kvs \<noteq> []" using assms(2) by auto
  then have "py_get (py_or spec (VDict [])) ''type'' (VStr ''latest'') = Inr t"
    using assms by (simp add: py_or_def py_get_def)
  then show ?thesis
    using assms(3)
    by (simp add: resolve_version_def io_bind_def io_lift_def io_raise_def)
qed

text \<open>
  Claim C10. If the version specification of an item is absent (\<open>None\<close>, which is also
  what a missing key gives) or is a mapping without the key \<open>type\<close>, version resolution
  does what it does for the type \<open>latest\<close>: it asks the latest-release address and
  returns its tag, and raises no validation error. A mapping whose \<open>type\<close> is present and
  is none of \<open>exact\<close>, \<open>latest\<close> and \<open>latest-in-minor\<close> fails with the error about an
  unknown type, before any request.
\<close>

theorem resolve_version_default_latest:
  "(spec = VNone \<or> (\<exists>kvs. spec = VDict kvs \<and> map_of kvs ''type'' = None)
      \<longrightarrow> resolve_version E spec w = resolve_version E (VDict [(''type'', VStr ''latest'')]) w
        \<and> resolve_version E spec w = latest_outcome E w)
   \<and> (spec = VDict kvs \<and> map_of kvs ''type'' = Some t
        \<and> t \<notin> {VStr ''exact'', VStr ''latest'', VStr ''latest-in-minor''}
      \<longrightarrow> resolve_version E spec w
            = (Inl (ValueError (''Unknown version.type: '' @ py_str E t)), w))"
proof (intro conjI impI)
  assume h: "spec = VNone \<or> (\<exists>kvs. spec = VDict kvs \<and> map_of kvs ''type'' = None)"
  then have a: "py_get (py_or spec (VDict [])) ''type'' (VStr ''latest'') = Inr (VStr ''latest'')"
    by (auto simp: py_or_def py_get_def)
  have b: "py_get (py_or (VDict [(''type'', VStr ''latest'')]) (VDict [])) ''type'' (VStr ''latest'')
           = Inr (VStr ''latest'')"
    by (simp add: py_or_def py_get_def)
  show "resolve_version E spec w = resolve_version E (VDict [(''type'', VStr ''latest'')]) w"
    by (simp add: resolve_version_latest [OF a] resolve_version_latest [OF b])
  show "resolve_version E spec w = latest_outcome E w"
    by (rule resolve_version_latest [OF a])
next
  assume "spec = VDict kvs \<and> map_of kvs ''type'' = Some t
        \<and> t \<notin> {VStr ''exact'', VStr ''latest'', VStr ''latest-in-minor''}"
  then show "resolve_version E spec w
            = (Inl (ValueError (''Unknown version.type: '' @ py_str E t)), w)"
    using resolve_version_unknown by blast
qed

text \<open>
  The theorem at an absent specification, where the latest release is \<open>v1.11.2\<close>, and at
  the unknown type \<open>newest\<close>.
\<close>

theorem resolve_version_default_latest_witness:
  "resolve_version env0 VNone w0 = resolve_version env0 (VDict [(''type'', VStr ''latest'')]) w0
   \<and> resolve_version env0 VNone w0
       = (Inr (VStr ''v1.11.2'', ''latest''), \<lparr> fs = [], trace = [HttpGet GITHUB_LATEST] \<rparr>)
   \<and> map_of [(''type'', VStr ''newest'')] ''type'' = Some (VStr ''newest'')
   \<and> VStr ''newest'' \<notin> {VStr ''exact'', VStr ''latest'', VStr ''latest-in-minor''}
   \<and> resolve_version env0 (VDict [(''type'', VStr ''newest'')]) w0
       = (Inl (ValueError ''Unknown version.type: newest''), w0)"
proof -
  have a: "latest_outcome env0 w0
       = (Inr (VStr ''v1.11.2'', ''latest''), \<lparr> fs = [], trace = [HttpGet GITHUB_LATEST] \<rparr>)"
    by (simp add: latest_outcome_def env0_def w0_def py_get_def)
  have b: "resolve_version env0 VNone w0 = resolve_version env0 (VDict [(''type'', VStr ''latest'')]) w0
        \<and> resolve_version env0 VNone w0 = latest_outcome env0 w0"
    using resolve_version_default_latest [of VNone env0 w0 "[]" VNone] by blast
  have c: "resolve_version env0 (VDict [(''type'', VStr ''newest'')]) w0
       = (Inl (ValueError ''Unknown version.type: newest''), w0)"
    using resolve_version_default_latest [of "VDict [(''type'', VStr ''newest'')]" env0 w0
        "[(''type'', VStr ''newest'')]" "VStr ''newest''"]
    by simp
  have d: "resolve_version env0 VNone w0
       = (Inr (VStr ''v1.11.2'', ''latest''), \<lparr> fs = [], trace = [HttpGet GITHUB_LATEST] \<rparr>)"
    by (simp only: conjunct2 [OF b] a)
  show ?thesis
    using conjunct1 [OF b] c d by simp
qed

section \<open>The download step\<close>

lemma fetch_cached:
  assumes "map_of (fs w) p = Some (File content)" and "content \<noteq> []"
    and "map_of (fs w) (p @ ''.sha256'') \<noteq> Some Dir"
  shows "fetch_artifact E url p w =
           (Inr \<lparr>dl_path = p, dl_done = False, dl_sha256 = Some (sha256_hex E content),
                 dl_size_bytes = Some (length content)\<rparr>,
            w\<lparr>fs := AList.update (p @ ''.sha256'') (File (sha256_hex E content @ [CHR 0x0A])) (fs w),
              trace := trace w @ [WriteFile (p @ ''.sha256'') (sha256_hex E content @ [CHR 0x0A])]\<rparr>)"
  using assms
  by (auto simp: fetch_artifact_def is_cached_def os_path_exists_def os_path_getsize_def
      sha256_file_def write_file_def io_bind_def io_return_def
      split: option.splits node.splits)

lemma fetch_result:
  assumes "fetch_artifact E url p w = (Inr dl, w')"
  shows "\<exists>content. map_of (fs w') p = Some (File content)
           \<and> dl_sha256 dl = Some (sha256_hex E content)
           \<and> dl_size_bytes dl = Some (length content)
           \<and> map_of (fs w') (p @ ''.sha256'') = Some (File (sha256_hex E content @ [CHR 0x0A]))"
proof -
  define m where "m = io_bind (is_cached E p) (\<lambda>cached.
       io_bind (if \<not> cached then http_download E url p else io_return ()) (\<lambda>_. io_return cached))"
  have split: "fetch_artifact E url p = io_bind m (\<lambda>cached.
     io_bind (sha256_file E p) (\<lambda>sha.
     io_bind (os_path_getsize E p) (\<lambda>size_bytes.
     io_bind (write_file (p @ ''.sha256'') (sha @ [CHR 0x0A])) (\<lambda>_.
     io_return \<lparr>dl_path = p, dl_done = (\<not> cached), dl_sha256 = Some sha,
                dl_size_bytes = Some size_bytes\<rparr>))))"
    by (auto simp: fetch_artifact_def m_def io_bind_def io_return_def fun_eq_iff
        split: prod.splits sum.splits)
  obtain cached w1 where m1: "m w = (Inr cached, w1)"
    using assms unfolding split io_bind_def by (auto split: prod.splits sum.splits)
  have rest: "io_bind (sha256_file E p) (\<lambda>sha.
     io_bind (os_path_getsize E p) (\<lambda>size_bytes.
     io_bind (write_file (p @ ''.sha256'') (sha @ [CHR 0x0A])) (\<lambda>_.
     io_return \<lparr>dl_path = p, dl_done = (\<not> cached), dl_sha256 = Some sha,
                dl_size_bytes = Some size_bytes\<rparr>))) w1 = (Inr dl, w')"
    using assms m1 unfolding split by (simp add: io_bind_def)
  then show ?thesis
    by (auto simp: sha256_file_def os_path_getsize_def write_file_def io_bind_def io_return_def
        update_conv' split: option.splits node.splits if_splits)
qed

lemma fetch_twice:
  assumes "map_of (fs w) p = Some (File content)" and "content \<noteq> []"
    and "map_of (fs w) (p @ ''.sha256'') \<noteq> Some Dir"
  shows "\<exists>w1 w2. fetch_artifact E url p w =
           (Inr \<lparr>dl_path = p, dl_done = False, dl_sha256 = Some (sha256_hex E content),
                 dl_size_bytes = Some (length content)\<rparr>, w1)
         \<and> fetch_artifact E url p w1 =
           (Inr \<lparr>dl_path = p, dl_done = False, dl_sha256 = Some (sha256_hex E content),
                 dl_size_bytes = Some (length content)\<rparr>, w2)
         \<and> trace w1 = trace w @ [WriteFile (p @ ''.sha256'') (sha256_hex E content @ [CHR 0x0A])]
         \<and> trace w2 = trace w1 @ [WriteFile (p @ ''.sha256'') (sha256_hex E content @ [CHR 0x0A])]
         \<and> map_of (fs w2) p = Some (File content)
         \<and> map_of (fs w2) (p @ ''.sha256'') = Some (File (sha256_hex E content @ [CHR 0x0A]))"
proof -
  let ?side = "p @ ''.sha256''"
  let ?text = "sha256_hex E content @ [CHR 0x0A]"
  let ?w1 = "w\<lparr>fs := AList.update ?side (File ?text) (fs w), trace := trace w @ [WriteFile ?side ?text]\<rparr>"
  let ?w2 = "?w1\<lparr>fs := AList.update ?side (File ?text) (fs ?w1), trace := trace ?w1 @ [WriteFile ?side ?text]\<rparr>"
  have a: "map_of (fs ?w1) p = Some (File content)"
    using assms(1) by (simp add: update_conv')
  have b: "map_of (fs ?w1) ?side \<noteq> Some Dir"
    by (simp add: update_conv')
  have f1: "fetch_artifact E url p w = (Inr \<lparr>dl_path = p, dl_done = False, dl_sha256 = Some (sha256_hex E content),
                 dl_size_bytes = Some (length content)\<rparr>, ?w1)"
    by (rule fetch_cached [OF assms])
  have f2: "fetch_artifact E url p ?w1 = (Inr \<lparr>dl_path = p, dl_done = False, dl_sha256 = Some (sha256_hex E content),
                 dl_size_bytes = Some (length content)\<rparr>, ?w2)"
    by (rule fetch_cached [OF a assms(2) b])
  have c: "map_of (fs ?w2) p = Some (File content)"
    using assms(1) by (simp add: update_conv')
  have d: "map_of (fs ?w2) ?side = Some (File ?text)"
    by (simp add: update_conv')
  show ?thesis
    using f1 f2 c d by (intro exI [of _ ?w1] exI [of _ ?w2]) simp
qed


text \<open>
  Claim C4. For every address and local path: if the local file exists with a size
  greater than zero (and its sidecar path is no directory), the download step makes no
  network transfer, and its only effect is writing the sidecar. Whenever the step
  returns, with or without a transfer, the checksum it reports is the digest of the file
  on disk, and the sidecar holds it. Hence two runs in a row with the file present make
  no transfer, return the same checksum and leave the file as it was.
\<close>

theorem fetch_artifact_idempotent:
  "(map_of (fs w) local_path = Some (File content) \<and> content \<noteq> []
      \<and> map_of (fs w) (local_path @ ''.sha256'') \<noteq> Some Dir
      \<longrightarrow> (\<exists>w1 w2.
            fetch_artifact E url local_path w
              = (Inr \<lparr>dl_path = local_path, dl_done = False,
                      dl_sha256 = Some (sha256_hex E content),
                      dl_size_bytes = Some (length content)\<rparr>, w1)
          \<and> fetch_artifact E url local_path w1
              = (Inr \<lparr>dl_path = local_path, dl_done = False,
                      dl_sha256 = Some (sha256_hex E content),
                      dl_size_bytes = Some (length content)\<rparr>, w2)
          \<and> trace w1 = trace w @ [WriteFile (local_path @ ''.sha256'')
                                     (sha256_hex E content @ [CHR 0x0A])]
          \<and> trace w2 = trace w1 @ [WriteFile (local_path @ ''.sha256'')
                                      (sha256_hex E content @ [CHR 0x0A])]
          \<and> map_of (fs w2) local_path = Some (File content)
          \<and> map_of (fs w2) (local_path @ ''.sha256'')
              = Some (File (sha256_hex E content @ [CHR 0x0A]))))
   \<and> (fetch_artifact E url local_path v = (Inr dl, v')
      \<longrightarrow> (\<exists>on_disk. map_of (fs v') local_path = Some (File on_disk)
            \<and> dl_sha256 dl = Some (sha256_hex E on_disk)
            \<and> dl_size_bytes dl = Some (length on_disk)
            \<and> map_of (fs v') (local_path @ ''.sha256'')
                = Some (File (sha256_hex E on_disk @ [CHR 0x0A]))))"
proof (intro conjI impI)
  assume "map_of (fs w) local_path = Some (File content) \<and> content \<noteq> []
      \<and> map_of (fs w) (local_path @ ''.sha256'') \<noteq> Some Dir"
  then show "\<exists>w1 w2.
            fetch_artifact E url local_path w
              = (Inr \<lparr>dl_path = local_path, dl_done = False,
                      dl_sha256 = Some (sha256_hex E content),
                      dl_size_bytes = Some (length content)\<rparr>, w1)
          \<and> fetch_artifact E url local_path w1
              = (Inr \<lparr>dl_path = local_path, dl_done = False,
                      dl_sha256 = Some (sha256_hex E content),
                      dl_size_bytes = Some (length content)\<rparr>, w2)
          \<and> trace w1 = trace w @ [WriteFile (local_path @ ''.sha256'')
                                     (sha256_hex E content @ [CHR 0x0A])]
          \<and> trace w2 = trace w1 @ [WriteFile (local_path @ ''.sha256'')
                                      (sha256_hex E content @ [CHR 0x0A])]
          \<and> map_of (fs w2) local_path = Some (File content)
          \<and> map_of (fs w2) (local_path @ ''.sha256'')
              = Some (File (sha256_hex E content @ [CHR 0x0A]))"
    using fetch_twice [of w local_path content E url] by blast
next
  assume "fetch_artifact E url local_path v = (Inr dl, v')"
  then show "\<exists>on_disk. map_of (fs v') local_path = Some (File on_disk)
            \<and> dl_sha256 dl = Some (sha256_hex E on_disk)
            \<and> dl_size_bytes dl = Some (length on_disk)
            \<and> map_of (fs v') (local_path @ ''.sha256'')
                = Some (File (sha256_hex E on_disk @ [CHR 0x0A]))"
    by (rule fetch_result)
qed

text \<open>
  The theorem at a cache that holds the image, run twice, and at an empty cache, where
  the step downloads.
\<close>

theorem fetch_artifact_idempotent_witness:
  "map_of (fs cached1) ''/c/talos-v1.11.0-nocloud-amd64.iso'' = Some (File ''IMAGE'')
   \<and> ''IMAGE'' \<noteq> []
   \<and> map_of (fs cached1) (''/c/talos-v1.11.0-nocloud-amd64.iso'' @ ''.sha256'') \<noteq> Some Dir
   \<and> (\<exists>w1 w2.
         fetch_artifact env0 ''https://factory.talos.dev/image/abc/v1.11.0/nocloud-amd64.iso''
             ''/c/talos-v1.11.0-nocloud-amd64.iso'' cached1
           = (Inr \<lparr>dl_path = ''/c/talos-v1.11.0-nocloud-amd64.iso'', dl_done = False,
                   dl_sha256 = Some ''sha256 of IMAGE'', dl_size_bytes = Some 5\<rparr>, w1)
       \<and> fetch_artifact env0 ''https://factory.talos.dev/image/abc/v1.11.0/nocloud-amd64.iso''
             ''/c/talos-v1.11.0-nocloud-amd64.iso'' w1
           = (Inr \<lparr>dl_path = ''/c/talos-v1.11.0-nocloud-amd64.iso'', dl_done = False,
                   dl_sha256 = Some ''sha256 of IMAGE'', dl_size_bytes = Some 5\<rparr>, w2)
       \<and> trace w2
           = [WriteFile ''/c/talos-v1.11.0-nocloud-amd64.iso.sha256'' (''sha256 of IMAGE'' @ [CHR 0x0A]),
              WriteFile ''/c/talos-v1.11.0-nocloud-amd64.iso.sha256'' (''sha256 of IMAGE'' @ [CHR 0x0A])])
   \<and> fst (fetch_artifact env0 ''https://factory.talos.dev/image/abc/v1.11.0/nocloud-amd64.iso''
             ''/c/talos-v1.11.0-nocloud-amd64.iso'' empty_cache)
       = Inr \<lparr>dl_path = ''/c/talos-v1.11.0-nocloud-amd64.iso'', dl_done = True,
               dl_sha256 = Some ''sha256 of IMAGE'', dl_size_bytes = Some 5\<rparr>
   \<and> (\<exists>on_disk.
         map_of (fs (snd (fetch_artifact env0
              ''https://factory.talos.dev/image/abc/v1.11.0/nocloud-amd64.iso''
              ''/c/talos-v1.11.0-nocloud-amd64.iso'' empty_cache)))
           ''/c/talos-v1.11.0-nocloud-amd64.iso'' = Some (File on_disk)
       \<and> Some ''sha256 of IMAGE'' = Some (sha256_hex env0 on_disk))"
proof -
  let ?url = "''https://factory.talos.dev/image/abc/v1.11.0/nocloud-amd64.iso''"
  let ?p = "''/c/talos-v1.11.0-nocloud-amd64.iso''"
  have a: "map_of (fs cached1) ?p = Some (File ''IMAGE'')" by (simp add: cached1_def)
  have b: "map_of (fs cached1) (?p @ ''.sha256'') \<noteq> Some Dir" by (simp add: cached1_def)
  have e: "sha256_hex env0 ''IMAGE'' = ''sha256 of IMAGE''" by (simp add: env0_def)
  have t: "trace cached1 = []" by (simp add: cached1_def)
  have c: "\<exists>w1 w2.
         fetch_artifact env0 ?url ?p cached1
           = (Inr \<lparr>dl_path = ?p, dl_done = False,
                   dl_sha256 = Some ''sha256 of IMAGE'', dl_size_bytes = Some 5\<rparr>, w1)
       \<and> fetch_artifact env0 ?url ?p w1
           = (Inr \<lparr>dl_path = ?p, dl_done = False,
                   dl_sha256 = Some ''sha256 of IMAGE'', dl_size_bytes = Some 5\<rparr>, w2)
       \<and> trace w2
           = [WriteFile ''/c/talos-v1.11.0-nocloud-amd64.iso.sha256'' (''sha256 of IMAGE'' @ [CHR 0x0A]),
              WriteFile ''/c/talos-v1.11.0-nocloud-amd64.iso.sha256'' (''sha256 of IMAGE'' @ [CHR 0x0A])]"
  proof -
    have hyp: "map_of (fs cached1) ?p = Some (File ''IMAGE'') \<and> ''IMAGE'' \<noteq> []
        \<and> map_of (fs cached1) (?p @ ''.sha256'') \<noteq> Some Dir"
      using a b by simp
    from mp [OF conjunct1 [OF fetch_artifact_idempotent [where w = cached1 and local_path = ?p
          and content = "''IMAGE''" and E = env0 and url = ?url]] hyp]
    obtain w1 w2 where
      r1: "fetch_artifact env0 ?url ?p cached1
            = (Inr \<lparr>dl_path = ?p, dl_done = False, dl_sha256 = Some (sha256_hex env0 ''IMAGE''),
                    dl_size_bytes = Some (length ''IMAGE'')\<rparr>, w1)"
      and r2: "fetch_artifact env0 ?url ?p w1
            = (Inr \<lparr>dl_path = ?p, dl_done = False, dl_sha256 = Some (sha256_hex env0 ''IMAGE''),
                    dl_size_bytes = Some (length ''IMAGE'')\<rparr>, w2)"
      and t1: "trace w1 = trace cached1 @ [WriteFile (?p @ ''.sha256'')
                                     (sha256_hex env0 ''IMAGE'' @ [CHR 0x0A])]"
      and t2: "trace w2 = trace w1 @ [WriteFile (?p @ ''.sha256'')
                                      (sha256_hex env0 ''IMAGE'' @ [CHR 0x0A])]"
      by blast
    show ?thesis
      using r1 r2 t1 t2 e t by (intro exI [of _ w1] exI [of _ w2]) simp
  qed
  let ?dl = "\<lparr>dl_path = ?p, dl_done = True,
               dl_sha256 = Some ''sha256 of IMAGE'', dl_size_bytes = Some 5\<rparr>"
  let ?v = "\<lparr>fs = [(''/c'', Dir), (?p, File ''IMAGE''),
                (''/c/talos-v1.11.0-nocloud-amd64.iso.sha256'', File (''sha256 of IMAGE'' @ [CHR 0x0A]))],
            trace = [Makedirs ''/c'',
               Download ?url ''/c/talos-v1.11.0-nocloud-amd64.iso.part'',
               WriteFile ''/c/talos-v1.11.0-nocloud-amd64.iso.part'' ''IMAGE'',
               Rename ''/c/talos-v1.11.0-nocloud-amd64.iso.part'' ?p,
               WriteFile ''/c/talos-v1.11.0-nocloud-amd64.iso.sha256''
                 (''sha256 of IMAGE'' @ [CHR 0x0A])]\<rparr>"
  have f: "fetch_artifact env0 ?url ?p empty_cache = (Inr ?dl, ?v)"
    by code_simp
  have h: "\<exists>on_disk. map_of (fs ?v) ?p = Some (File on_disk)
       \<and> dl_sha256 ?dl = Some (sha256_hex env0 on_disk)"
    using f fetch_artifact_idempotent [where v = empty_cache and local_path = ?p
        and E = env0 and url = ?url and dl = ?dl and v' = ?v]
    by blast
  have f1: "fst (fetch_artifact env0 ?url ?p empty_cache) = Inr ?dl"
    by (simp only: f fst_conv)
  have h': "\<exists>on_disk.
         map_of (fs (snd (fetch_artifact env0 ?url ?p empty_cache))) ?p = Some (File on_disk)
       \<and> Some ''sha256 of IMAGE'' = Some (sha256_hex env0 on_disk)"
    using h by (simp only: f snd_conv download_info.simps)
  have n: "''IMAGE'' \<noteq> []" by simp
  show ?thesis
    by (intro conjI) (rule a n b c f1 h')+
qed

section \<open>The loop over the positions\<close>



lemma pos_name_of_mapping: "is_mapping it \<Longrightarrow> \<exists>n. pos_name_of it = Inr n"
  by (auto simp: is_mapping_def pos_name_of_def py_get_def bind_exn_def split: pyval.splits)

lemma positions_loop_total:
  assumes "\<forall>x\<in>set its. is_mapping x"
  shows "\<exists>es w'. positions_loop E c its acc w = (Inr es, w')"
  using assms
proof (induction its arbitrary: acc w)
  case Nil
  show ?case by (simp add: io_return_def)
next
  case (Cons it its)
  from Cons.prems have "is_mapping it" by simp
  then obtain n where n: "pos_name_of it = Inr n"
    using pos_name_of_mapping by blast
  from Cons.prems have "\<forall>x\<in>set its. is_mapping x" by simp
  then have rest: "\<And>acc w. \<exists>es w'. positions_loop E c its acc w = (Inr es, w')"
    using Cons.IH by blast
  show ?case
    using rest
    by (simp add: io_bind_def io_lift_def n split: sum.splits prod.splits option.splits)
qed


lemma process_item_skipped:
  assumes "skipped it"
  shows "process_item E c it n w = (Inr None, w)"
  using assms
  by (auto simp: skipped_def process_item_def io_bind_def io_lift_def io_return_def bind_exn_def
      split: sum.splits)

lemma process_item_applicable:
  assumes "\<not> skipped it"
  shows "fst (process_item E c it n w) \<noteq> Inr None"
  using assms
  by (auto simp: skipped_def process_item_def io_bind_def io_lift_def io_return_def bind_exn_def
      split: sum.splits prod.splits)

lemma positions_loop_count:
  assumes "\<forall>x\<in>set its. is_mapping x"
    and "positions_loop E c its acc w = (Inr es, w')"
  shows "length es = length acc + length (filter (\<lambda>x. \<not> skipped x) its)"
  using assms
proof (induction its arbitrary: acc w)
  case Nil
  then show ?case by (simp add: io_return_def)
next
  case (Cons it its)
  from Cons.prems have "is_mapping it" by simp
  then obtain n where n: "pos_name_of it = Inr n"
    using pos_name_of_mapping by blast
  from Cons.prems have m: "\<forall>x\<in>set its. is_mapping x" by simp
  obtain r w1 where p: "process_item E c it n w = (r, w1)"
    by (cases "process_item E c it n w")
  show ?case
  proof (cases "skipped it")
    case True
    then have "process_item E c it n w = (Inr None, w)" by (rule process_item_skipped)
    then have "positions_loop E c its acc w = (Inr es, w')"
      using Cons.prems(2) n by (simp add: io_bind_def io_lift_def)
    from Cons.IH [OF m this] True show ?thesis by simp
  next
    case False
    then have nn: "r \<noteq> Inr None"
      using process_item_applicable [of it E c n w] p by simp
    show ?thesis
    proof (cases r)
      case (Inl e)
      then have "positions_loop E c its (acc @ [position_error n e]) w1 = (Inr es, w')"
        using Cons.prems(2) n p by (simp add: io_bind_def io_lift_def)
      from Cons.IH [OF m this] False show ?thesis by simp
    next
      case (Inr res)
      then obtain a where a: "res = Some a" using nn by (cases res) auto
      then have "positions_loop E c its (acc @ [Artifact a]) w1 = (Inr es, w')"
        using Cons.prems(2) n p Inr by (simp add: io_bind_def io_lift_def)
      from Cons.IH [OF m this] False show ?thesis by simp
    qed
  qed
qed





section \<open>The check of the push tools\<close>

lemma ensure_tools_missing_rsync:
  assumes "run_answer E (trace v) [''bash'', ''-lc'', ''command -v rsync''] = Inr r" and "fst r \<noteq> 0"
  shows "ensure_tools_for_push E v
           = (Inr (False, ''Missing dependency: rsync''),
              v\<lparr>trace := trace v @ [Run [''bash'', ''-lc'', ''command -v rsync'']]\<rparr>)"
  using assms by (simp add: ensure_tools_for_push_def io_bind_def run_def io_return_def)

lemma ensure_tools_missing_ssh:
  assumes "run_answer E (trace v) [''bash'', ''-lc'', ''command -v rsync''] = Inr r1" and "fst r1 = 0"
    and "run_answer E (trace v @ [Run [''bash'', ''-lc'', ''command -v rsync'']])
           [''bash'', ''-lc'', ''command -v ssh''] = Inr r2" and "fst r2 \<noteq> 0"
  shows "ensure_tools_for_push E v
           = (Inr (False, ''Missing dependency: ssh''),
              v\<lparr>trace := trace v @ [Run [''bash'', ''-lc'', ''command -v rsync''],
                                     Run [''bash'', ''-lc'', ''command -v ssh'']]\<rparr>)"
  using assms by (simp add: ensure_tools_for_push_def io_bind_def run_def io_return_def)

lemma ensure_tools_frame:
  assumes "ensure_tools_for_push E v = (r, v')"
  shows "fs v' = fs v
         \<and> (trace v' = trace v @ [Run [''bash'', ''-lc'', ''command -v rsync'']]
            \<or> trace v' = trace v @ [Run [''bash'', ''-lc'', ''command -v rsync''],
                                     Run [''bash'', ''-lc'', ''command -v ssh'']])"
  using assms
  by (auto simp: ensure_tools_for_push_def io_bind_def run_def io_return_def
      split: sum.splits if_splits)

lemma os_makedirs_trace:
  assumes "os_makedirs p w = (Inr u, w1)"
  shows "trace w1 = trace w @ [Makedirs p]"
  using assms by (auto simp: os_makedirs_def split: if_splits option.splits node.splits)

lemma read_defaults_frame:
  assumes "read_defaults defaults dry w = (Inr c, w1)"
  shows "trace w1 = trace w @ [Makedirs (c_cache_dir c)]"
proof -
  from assms obtain cache_dir u where a: "os_makedirs cache_dir w = (Inr u, w1)"
    and b: "c_cache_dir c = cache_dir"
    by (auto simp: read_defaults_def io_bind_def io_lift_def io_return_def
        split: sum.splits prod.splits)
  from os_makedirs_trace [OF a] b show ?thesis by simp
qed

lemma process_positions_tool_missing:
  assumes "read_defaults defaults False w = (Inr c, w1)"
    and "py_iter positions = Inr its"
    and "any_push (c_push_enabled_default c) its = Inr True"
    and "ensure_tools_for_push E w1 = (Inr (False, msg), w2)"
  shows "process_positions E orderid positions defaults False w = (Inl (RuntimeError msg), w2)"
  using assms
  by (simp add: process_positions_def io_bind_def io_lift_def io_raise_def bind_exn_def)

lemma any_push_exists:
  assumes "\<forall>x\<in>set its. \<exists>b. wants_push d x = Inr b"
  shows "any_push d its = Inr (\<exists>x\<in>set its. wants_push d x = Inr True)"
  using assms by (induction its) (auto simp: bind_exn_def)

text \<open>
  Claim C1, as amended. If a position of an order asks for a push (its \<open>push.hosts\<close> is
  present and not empty and push is enabled) and the run is no dry run, then the absence
  of \<open>rsync\<close> or of \<open>ssh\<close> is found before any position of that order is processed: after
  the cache directory is made, the only effects are the probes for the tools,
  \<open>process_positions\<close> raises \<open>RuntimeError\<close> with the name of the missing tool, and
  \<open>main\<close> catches it and records it as the one error entry of the order. When the
  condition on every position evaluates, \<open>need_push\<close> holds exactly if some position asks
  for a push.
\<close>

theorem missing_push_tool_fails_order:
  "(read_defaults defaults False w = (Inr c, w1) \<and> py_iter positions = Inr its
      \<and> any_push (c_push_enabled_default c) its = Inr True
      \<and> ensure_tools_for_push E w1 = (Inr (False, msg), w2)
      \<longrightarrow> process_positions E orderid positions defaults False w = (Inl (RuntimeError msg), w2)
        \<and> order_entries E orderid positions defaults False w
            = (Inr [OrderError (''order failed: RuntimeError: '' @ msg)], w2)
        \<and> fs w2 = fs w1
        \<and> (trace w2 = trace w @ [Makedirs (c_cache_dir c),
                                   Run [''bash'', ''-lc'', ''command -v rsync'']]
           \<or> trace w2 = trace w @ [Makedirs (c_cache_dir c),
                                     Run [''bash'', ''-lc'', ''command -v rsync''],
                                     Run [''bash'', ''-lc'', ''command -v ssh'']]))
   \<and> (run_answer E (trace v) [''bash'', ''-lc'', ''command -v rsync''] = Inr r \<and> fst r \<noteq> 0
      \<longrightarrow> ensure_tools_for_push E v
            = (Inr (False, ''Missing dependency: rsync''),
               v\<lparr>trace := trace v @ [Run [''bash'', ''-lc'', ''command -v rsync'']]\<rparr>))
   \<and> (run_answer E (trace v) [''bash'', ''-lc'', ''command -v rsync''] = Inr r1 \<and> fst r1 = 0
        \<and> run_answer E (trace v @ [Run [''bash'', ''-lc'', ''command -v rsync'']])
              [''bash'', ''-lc'', ''command -v ssh''] = Inr r2 \<and> fst r2 \<noteq> 0
      \<longrightarrow> ensure_tools_for_push E v
            = (Inr (False, ''Missing dependency: ssh''),
               v\<lparr>trace := trace v @ [Run [''bash'', ''-lc'', ''command -v rsync''],
                                      Run [''bash'', ''-lc'', ''command -v ssh'']]\<rparr>))
   \<and> ((\<forall>x\<in>set its. \<exists>b. wants_push d x = Inr b)
      \<longrightarrow> any_push d its = Inr (\<exists>x\<in>set its. wants_push d x = Inr True))"
proof (intro conjI impI)
  assume h: "read_defaults defaults False w = (Inr c, w1) \<and> py_iter positions = Inr its
      \<and> any_push (c_push_enabled_default c) its = Inr True
      \<and> ensure_tools_for_push E w1 = (Inr (False, msg), w2)"
  then have p: "process_positions E orderid positions defaults False w = (Inl (RuntimeError msg), w2)"
    using process_positions_tool_missing by blast
  show "process_positions E orderid positions defaults False w = (Inl (RuntimeError msg), w2)"
    by (rule p)
  show "order_entries E orderid positions defaults False w
            = (Inr [OrderError (''order failed: RuntimeError: '' @ msg)], w2)"
    by (simp add: order_entries_def p order_error_def exn_class_def exn_msg_def)
  from h ensure_tools_frame [of E w1 "Inr (False, msg)" w2]
  show "fs w2 = fs w1" by blast
  from h ensure_tools_frame [of E w1 "Inr (False, msg)" w2] read_defaults_frame [of defaults False w c w1]
  show "trace w2 = trace w @ [Makedirs (c_cache_dir c),
                                   Run [''bash'', ''-lc'', ''command -v rsync'']]
           \<or> trace w2 = trace w @ [Makedirs (c_cache_dir c),
                                     Run [''bash'', ''-lc'', ''command -v rsync''],
                                     Run [''bash'', ''-lc'', ''command -v ssh'']]"
    by auto
next
  assume "run_answer E (trace v) [''bash'', ''-lc'', ''command -v rsync''] = Inr r \<and> fst r \<noteq> 0"
  then show "ensure_tools_for_push E v
            = (Inr (False, ''Missing dependency: rsync''),
               v\<lparr>trace := trace v @ [Run [''bash'', ''-lc'', ''command -v rsync'']]\<rparr>)"
    using ensure_tools_missing_rsync by blast
next
  assume "run_answer E (trace v) [''bash'', ''-lc'', ''command -v rsync''] = Inr r1 \<and> fst r1 = 0
        \<and> run_answer E (trace v @ [Run [''bash'', ''-lc'', ''command -v rsync'']])
              [''bash'', ''-lc'', ''command -v ssh''] = Inr r2 \<and> fst r2 \<noteq> 0"
  then show "ensure_tools_for_push E v
            = (Inr (False, ''Missing dependency: ssh''),
               v\<lparr>trace := trace v @ [Run [''bash'', ''-lc'', ''command -v rsync''],
                                      Run [''bash'', ''-lc'', ''command -v ssh'']]\<rparr>)"
    using ensure_tools_missing_ssh by blast
next
  assume "\<forall>x\<in>set its. \<exists>b. wants_push d x = Inr b"
  then show "any_push d its = Inr (\<exists>x\<in>set its. wants_push d x = Inr True)"
    by (rule any_push_exists)
qed


text \<open>
  The theorem at an order whose position asks for a push, where \<open>rsync\<close> is missing.
\<close>

theorem missing_push_tool_fails_order_witness:
  "read_defaults defaults_c False w0 = (Inr (ctx_plan\<lparr>c_dry_run := False\<rparr>), \<lparr>fs = [(''/c'', Dir)], trace = [Makedirs ''/c'']\<rparr>)
   \<and> py_iter (VList [item_c]) = Inr [item_c]
   \<and> any_push (c_push_enabled_default (ctx_plan\<lparr>c_dry_run := False\<rparr>)) [item_c] = Inr True
   \<and> run_answer env_no_rsync (trace \<lparr>fs = [(''/c'', Dir)], trace = [Makedirs ''/c'']\<rparr>) [''bash'', ''-lc'', ''command -v rsync''] = Inr (1, [], [])
   \<and> ensure_tools_for_push env_no_rsync \<lparr>fs = [(''/c'', Dir)], trace = [Makedirs ''/c'']\<rparr>
       = (Inr (False, ''Missing dependency: rsync''), \<lparr>fs = [(''/c'', Dir)],
        trace = [Makedirs ''/c'', Run [''bash'', ''-lc'', ''command -v rsync'']]\<rparr>)
   \<and> process_positions env_no_rsync ''1'' (VList [item_c]) defaults_c False w0
       = (Inl (RuntimeError ''Missing dependency: rsync''), \<lparr>fs = [(''/c'', Dir)],
        trace = [Makedirs ''/c'', Run [''bash'', ''-lc'', ''command -v rsync'']]\<rparr>)
   \<and> order_entries env_no_rsync ''1'' (VList [item_c]) defaults_c False w0
       = (Inr [OrderError ''order failed: RuntimeError: Missing dependency: rsync''], \<lparr>fs = [(''/c'', Dir)],
        trace = [Makedirs ''/c'', Run [''bash'', ''-lc'', ''command -v rsync'']]\<rparr>)"
proof -
  let ?c = "ctx_plan\<lparr>c_dry_run := False\<rparr>"
  let ?W1 = "\<lparr>fs = [(''/c'', Dir)], trace = [Makedirs ''/c'']\<rparr>"
  let ?W2 = "\<lparr>fs = [(''/c'', Dir)],
        trace = [Makedirs ''/c'', Run [''bash'', ''-lc'', ''command -v rsync'']]\<rparr>"
  have a: "read_defaults defaults_c False w0 = (Inr ?c, ?W1)" by code_simp
  have b: "py_iter (VList [item_c]) = Inr [item_c]" by (simp add: py_iter_def)
  have c: "any_push (c_push_enabled_default ?c) [item_c] = Inr True" by code_simp
  have d: "run_answer env_no_rsync (trace ?W1) [''bash'', ''-lc'', ''command -v rsync'']
             = Inr (1, [], [])"
    by (simp add: env_no_rsync_def)
  have e: "ensure_tools_for_push env_no_rsync ?W1 = (Inr (False, ''Missing dependency: rsync''), ?W2)"
    using d missing_push_tool_fails_order [where E = env_no_rsync and v = ?W1 and r = "(1, [], [])"]
    by simp
  have hyp: "read_defaults defaults_c False w0 = (Inr ?c, ?W1) \<and> py_iter (VList [item_c]) = Inr [item_c]
      \<and> any_push (c_push_enabled_default ?c) [item_c] = Inr True
      \<and> ensure_tools_for_push env_no_rsync ?W1 = (Inr (False, ''Missing dependency: rsync''), ?W2)"
    using a b c e by blast
  from mp [OF conjunct1 [OF missing_push_tool_fails_order [where defaults = defaults_c and w = w0
        and c = ?c and ?w1.0 = ?W1 and positions = "VList [item_c]" and its = "[item_c]"
        and E = env_no_rsync and msg = "''Missing dependency: rsync''" and ?w2.0 = ?W2
        and orderid = "''1''"]] hyp]
  have f: "process_positions env_no_rsync ''1'' (VList [item_c]) defaults_c False w0
       = (Inl (RuntimeError ''Missing dependency: rsync''), ?W2)"
    and g: "order_entries env_no_rsync ''1'' (VList [item_c]) defaults_c False w0
       = (Inr [OrderError (''order failed: RuntimeError: '' @ ''Missing dependency: rsync'')], ?W2)"
    by blast+
  have g': "order_entries env_no_rsync ''1'' (VList [item_c]) defaults_c False w0
       = (Inr [OrderError ''order failed: RuntimeError: Missing dependency: rsync''], ?W2)"
    using g by simp
  show ?thesis
    by (intro conjI) (rule a b c d e f g')+
qed

text \<open>
  Claim C1 as it is written fails: with \<open>rsync\<close> missing and a push asked for in the
  first of two orders, the run is not aborted. The missing tool appears as the error
  entry of the first order, and the second order is processed and its image downloaded.
\<close>

theorem missing_push_tool_run_goes_on_counterexample:
  "fst (main_run env_no_rsync ''config.yaml'' ''orders.yaml'' False policy3 defaults_c (VDict [])
          two_orders w0)
     = Inr [(''/cwd/manifest-1.yaml'',
             \<lparr>m_generated_at = ''2024-01-01T00:00:00Z'', m_orderid = ''1'', m_customer = VStr [],
               m_positions_count = 1, m_source_config = ''/cwd/config.yaml'',
               m_source_orders = ''/cwd/orders.yaml'', m_cache_policy = policy3,
               m_entries = [OrderError ''order failed: RuntimeError: Missing dependency: rsync'']\<rparr>),
            (''/cwd/manifest-2.yaml'',
             \<lparr>m_generated_at = ''2024-01-01T00:00:00Z'', m_orderid = ''2'', m_customer = VStr [],
               m_positions_count = 1, m_source_config = ''/cwd/config.yaml'',
               m_source_orders = ''/cwd/orders.yaml'', m_cache_policy = policy3,
               m_entries = [Artifact
                 \<lparr>a_name = VStr ''a'', a_product = ''talos'', a_platform = VStr ''nocloud'',
                   a_arch = VStr ''amd64'', a_version = VStr ''v1.11.0'',
                   a_version_source = ''exact'', a_secureboot = False,
                   a_image_format = VStr ''iso'', a_schematic_id = VStr ''abc'',
                   a_url = ''https://factory.talos.dev/image/abc/v1.11.0/nocloud-amd64.iso'',
                   a_cache_dir = ''/c'',
                   a_download = \<lparr>dl_path = ''/c/talos-v1.11.0-nocloud-amd64.iso'',
                                   dl_done = True, dl_sha256 = Some ''sha256 of IMAGE'',
                                   dl_size_bytes = Some 5\<rparr>,
                   a_decompressed = None, a_pushed = [], a_features = VDict [],
                   a_timestamp_utc = ''2024-01-01T00:00:00Z''\<rparr>]\<rparr>)]"
  by code_simp

section \<open>The dry run\<close>

lemma plan_step_refl: "plan_step w w"
  by (simp add: plan_step_def)

lemma plan_step_trans:
  assumes "plan_step w w1" and "plan_step w1 w2"
  shows "plan_step w w2"
proof -
  from assms obtain e1 e2 where "trace w1 = trace w @ e1" "list_all planning_event e1"
    "trace w2 = trace w1 @ e2" "list_all planning_event e2"
    by (auto simp: plan_step_def)
  then have "trace w2 = trace w @ (e1 @ e2) \<and> list_all planning_event (e1 @ e2)"
    by simp
  then have "\<exists>evs. trace w2 = trace w @ evs \<and> list_all planning_event evs"
    by blast
  moreover have "\<forall>p content. (map_of (fs w2) p = Some (File content))
                       = (map_of (fs w) p = Some (File content))"
    using assms by (simp add: plan_step_def)
  ultimately show ?thesis by (simp add: plan_step_def)
qed

lemma plan_only_return: "plan_only (io_return x)"
  by (simp add: plan_only_def io_return_def plan_step_refl)

lemma plan_only_raise: "plan_only (io_raise e)"
  by (simp add: plan_only_def io_raise_def plan_step_refl)

lemma plan_only_lift: "plan_only (io_lift r)"
  by (simp add: plan_only_def io_lift_def plan_step_refl)

lemma plan_only_read: "plan_only (\<lambda>w. (f w, w))"
  by (simp add: plan_only_def plan_step_refl)

lemma plan_only_bind_result:
  assumes "plan_only m" and "\<And>x w w'. m w = (Inr x, w') \<Longrightarrow> plan_only (f x)"
  shows "plan_only (io_bind m f)"
  unfolding plan_only_def
proof
  fix w
  obtain r w1 where m: "m w = (r, w1)" by (cases "m w")
  have s1: "plan_step w w1" using assms(1) m by (auto simp: plan_only_def dest: spec [of _ w])
  show "plan_step w (snd (io_bind m f w))"
  proof (cases r)
    case (Inl e)
    then show ?thesis using m s1 by (simp add: io_bind_def)
  next
    case (Inr x)
    then have "plan_only (f x)" using assms(2) m by blast
    then have "plan_step w1 (snd (f x w1))" by (simp add: plan_only_def)
    then show ?thesis using Inr m s1 plan_step_trans by (simp add: io_bind_def)
  qed
qed

lemma plan_only_bind:
  assumes "plan_only m" and "\<And>x. plan_only (f x)"
  shows "plan_only (io_bind m f)"
  using assms by (intro plan_only_bind_result) auto

lemma plan_only_if:
  assumes "b \<Longrightarrow> plan_only m" and "\<not> b \<Longrightarrow> plan_only n"
  shows "plan_only (if b then m else n)"
  using assms by simp

lemma plan_only_makedirs: "plan_only (os_makedirs p)"
  by (auto simp: plan_only_def os_makedirs_def plan_step_def planning_event_def update_conv'
      split: option.splits node.splits)

lemma plan_only_http_json:
  assumes "url = GITHUB_LATEST \<or> url = GITHUB_TAGS"
  shows "plan_only (http_json E url)"
  using assms by (auto simp: plan_only_def http_json_def plan_step_def planning_event_def)

lemmas plan_only_intros =
  plan_only_return plan_only_raise plan_only_lift plan_only_read plan_only_makedirs
  plan_only_bind plan_only_if

lemma plan_only_resolve_version: "plan_only (resolve_version E spec)"
  unfolding resolve_version_def
  by (intro plan_only_intros plan_only_http_json allI) (auto intro: plan_only_intros split: list.splits)

lemma plan_only_build_entry:
  assumes "c_dry_run c"
  shows "plan_only (build_entry E c it n)"
  unfolding build_entry_def using assms
  by (intro plan_only_intros plan_only_resolve_version) simp_all

lemma plan_only_process_item:
  assumes "c_dry_run c"
  shows "plan_only (process_item E c it n)"
  unfolding process_item_def using assms
  by (intro plan_only_intros plan_only_build_entry) simp_all


lemma plan_only_positions_loop:
  assumes "c_dry_run c"
  shows "plan_only (positions_loop E c its acc)"
proof (induction its arbitrary: acc)
  case Nil
  show ?case by (simp add: plan_only_return)
next
  case (Cons it its)
  have body: "plan_only (\<lambda>w. case process_item E c it n w of
              (Inr None, w') \<Rightarrow> positions_loop E c its acc w'
            | (Inr (Some a), w') \<Rightarrow> positions_loop E c its (acc @ [Artifact a]) w'
            | (Inl e, w') \<Rightarrow> positions_loop E c its (acc @ [position_error n e]) w')" for n
    unfolding plan_only_def
  proof
    fix w
    obtain r w1 where p: "process_item E c it n w = (r, w1)"
      by (cases "process_item E c it n w")
    have s1: "plan_step w w1"
      using plan_only_process_item [OF assms, of E it n] p by (auto simp: plan_only_def dest: spec [of _ w])
    have s2: "plan_step w1 (snd (positions_loop E c its acc' w1))" for acc'
      using Cons.IH [of acc'] by (simp add: plan_only_def)
    show "plan_step w (snd (case process_item E c it n w of
              (Inr None, w') \<Rightarrow> positions_loop E c its acc w'
            | (Inr (Some a), w') \<Rightarrow> positions_loop E c its (acc @ [Artifact a]) w'
            | (Inl e, w') \<Rightarrow> positions_loop E c its (acc @ [position_error n e]) w'))"
      using p s1 s2 plan_step_trans
      by (auto split: sum.splits option.splits)
  qed
  show ?case
    by (simp only: positions_loop.simps) (intro plan_only_bind plan_only_lift body)
qed

lemma read_defaults_dry_run:
  assumes "read_defaults defaults dry w = (Inr c, w1)"
  shows "c_dry_run c = dry"
  using assms
  by (auto simp: read_defaults_def io_bind_def io_lift_def io_return_def
      split: sum.splits prod.splits)

lemma plan_only_read_defaults: "plan_only (read_defaults defaults dry)"
  unfolding read_defaults_def
  by (intro plan_only_intros)

lemma plan_only_process_positions:
  "plan_only (process_positions E orderid positions defaults True)"
  unfolding process_positions_def
  by (intro plan_only_bind_result plan_only_read_defaults plan_only_lift plan_only_if
        plan_only_return plan_only_positions_loop)
     (auto dest: read_defaults_dry_run)

lemma plan_only_order_entries:
  "plan_only (order_entries E orderid positions defaults True)"
  unfolding plan_only_def
proof
  fix w
  have "plan_step w (snd (process_positions E orderid positions defaults True w))"
    using plan_only_process_positions [of E orderid positions defaults]
    by (simp add: plan_only_def)
  moreover have "snd (order_entries E orderid positions defaults True w)
      = snd (process_positions E orderid positions defaults True w)"
    by (simp add: order_entries_def split: prod.splits sum.splits)
  ultimately show "plan_step w (snd (order_entries E orderid positions defaults True w))"
    by simp
qed

lemma plan_only_manifest_path: "plan_only (manifest_path_for_order E orderid manifest_cfg)"
  unfolding manifest_path_for_order_def
  by (intro plan_only_intros)

lemma plan_only_orders_loop:
  "plan_only (orders_loop E config orders_file True pol defaults manifest_cfg orders done)"
proof (induction orders arbitrary: "done")
  case Nil
  show ?case by (simp add: plan_only_return)
next
  case (Cons order rest)
  show ?case
    by (simp only: orders_loop.simps if_True)
       (intro plan_only_intros plan_only_order_entries plan_only_manifest_path Cons.IH)
qed

lemma plan_only_main_run:
  "plan_only (main_run E config orders_file True pol defaults manifest_cfg orders_list)"
  unfolding main_run_def
  by (simp only: simp_thms if_True)
     (intro plan_only_intros plan_only_orders_loop)


lemma post_bind:
  assumes "\<And>x. \<forall>w a w'. f x w = (Inr a, w') \<longrightarrow> P a"
  shows "\<forall>w a w'. io_bind m f w = (Inr a, w') \<longrightarrow> P a"
  using assms by (auto simp: io_bind_def split: prod.splits sum.splits)

lemma post_return:
  assumes "P x"
  shows "\<forall>w a w'. io_return x w = (Inr a, w') \<longrightarrow> P a"
  using assms by (simp add: io_return_def)

lemma build_entry_projected:
  assumes "build_entry E c it n w = (Inr a, w')"
  shows "projected (Artifact a)"
proof -
  have "\<forall>w a w'. build_entry E c it n w = (Inr a, w') \<longrightarrow> projected (Artifact a)"
    unfolding build_entry_def
    by (intro post_bind post_return) (simp add: projected_def)
  then show ?thesis using assms by blast
qed

lemma post_bind_lift:
  assumes "\<And>x. r = Inr x \<Longrightarrow> \<forall>w a w'. f x w = (Inr a, w') \<longrightarrow> P a"
  shows "\<forall>w a w'. io_bind (io_lift r) f w = (Inr a, w') \<longrightarrow> P a"
  using assms by (auto simp: io_bind_def io_lift_def split: prod.splits sum.splits)

lemma post_bind_result:
  assumes "\<And>x v v1. m v = (Inr x, v1) \<Longrightarrow> \<forall>w a w'. f x w = (Inr a, w') \<longrightarrow> P a"
  shows "\<forall>w a w'. io_bind m f w = (Inr a, w') \<longrightarrow> P a"
  using assms by (auto simp: io_bind_def split: prod.splits sum.splits)

lemma build_entry_placeholder:
  assumes "c_dry_run c" and "py_get it ''schematic_id'' VNone = Inr given" and "\<not> truthy given"
    and "build_entry E c it n w = (Inr a, w')"
  shows "a_schematic_id a = VStr ''<to-be-created>''"
proof -
  have "\<forall>w a w'. build_entry E c it n w = (Inr a, w')
          \<longrightarrow> a_schematic_id a = VStr ''<to-be-created>''"
    unfolding build_entry_def
    by (intro post_bind_lift post_bind_result post_return)
       (auto simp: assms io_return_def io_raise_def split: if_splits)
  then show ?thesis using assms by blast
qed

lemma process_item_projected:
  assumes "c_dry_run c" and "process_item E c it n w = (Inr (Some a), w')"
  shows "projected (Artifact a) \<and> (\<exists>v v'. build_entry E c it n v = (Inr a, v'))"
  using assms build_entry_projected
  by (auto simp: process_item_def io_bind_def io_lift_def io_return_def
      split: sum.splits prod.splits if_splits)


lemma positions_loop_projected:
  assumes "c_dry_run c" and "list_all projected acc"
    and "positions_loop E c its acc w = (Inr es, w')"
  shows "list_all projected es"
  using assms(2,3)
proof (induction its arbitrary: acc w)
  case Nil
  then show ?case by (simp add: io_return_def)
next
  case (Cons it its)
  from Cons.prems(2) obtain n where n: "pos_name_of it = Inr n"
    by (auto simp: io_bind_def io_lift_def split: sum.splits)
  obtain r w1 where p: "process_item E c it n w = (r, w1)"
    by (cases "process_item E c it n w")
  show ?case
  proof (cases r)
    case (Inl e)
    then have "positions_loop E c its (acc @ [position_error n e]) w1 = (Inr es, w')"
      using Cons.prems(2) n p by (simp add: io_bind_def io_lift_def)
    moreover have "projected (position_error n e)"
      by (simp add: position_error_def projected_def)
    then have "list_all projected (acc @ [position_error n e])"
      using Cons.prems(1) by simp
    ultimately show ?thesis using Cons.IH by blast
  next
    case (Inr res)
    show ?thesis
    proof (cases res)
      case None
      then have "positions_loop E c its acc w1 = (Inr es, w')"
        using Cons.prems(2) n p Inr by (simp add: io_bind_def io_lift_def)
      then show ?thesis using Cons.IH Cons.prems(1) by blast
    next
      case (Some a)
      then have "positions_loop E c its (acc @ [Artifact a]) w1 = (Inr es, w')"
        using Cons.prems(2) n p Inr by (simp add: io_bind_def io_lift_def)
      moreover have "projected (Artifact a)"
        using process_item_projected [OF assms(1)] p Inr Some by blast
      then have "list_all projected (acc @ [Artifact a])"
        using Cons.prems(1) by simp
      ultimately show ?thesis using Cons.IH by blast
    qed
  qed
qed

lemma process_positions_loop:
  assumes "process_positions E orderid positions defaults dry w = (Inr es, w')"
  shows "\<exists>c w1 its v. read_defaults defaults dry w = (Inr c, w1) \<and> py_iter positions = Inr its
           \<and> positions_loop E c its [] v = (Inr es, w')"
  using assms
  by (auto simp: process_positions_def io_bind_def io_lift_def
      split: sum.splits prod.splits)

lemma process_positions_projected:
  assumes "process_positions E orderid positions defaults True w = (Inr es, w')"
  shows "list_all projected es"
proof -
  from process_positions_loop [OF assms]
  obtain c w1 its v where c: "read_defaults defaults True w = (Inr c, w1)"
    and l: "positions_loop E c its [] v = (Inr es, w')"
    by blast
  have "c_dry_run c" using read_defaults_dry_run [OF c] by simp
  from positions_loop_projected [OF this _ l] show ?thesis by simp
qed

lemma process_positions_dry_total:
  assumes r: "read_defaults defaults True w = (Inr c, w1)"
    and m: "\<forall>x\<in>set its. is_mapping x"
    and p: "\<forall>x\<in>set its. \<exists>b. wants_push (c_push_enabled_default c) x = Inr b"
  shows "\<exists>entries w'. process_positions E orderid (VList its) defaults True w = (Inr entries, w')
           \<and> length entries = length (filter (\<lambda>x. \<not> skipped x) its)
           \<and> list_all projected entries"
proof -
  obtain es w' where l: "positions_loop E c its [] w1 = (Inr es, w')"
    using positions_loop_total [OF m] by blast
  have pp: "process_positions E orderid (VList its) defaults True w = (Inr es, w')"
    using r l any_push_exists [OF p]
    by (simp add: process_positions_def io_bind_def io_lift_def io_return_def py_iter_def
        bind_exn_def)
  have "length es = length (filter (\<lambda>x. \<not> skipped x) its)"
    using positions_loop_count [OF m l] by simp
  then show ?thesis
    using pp process_positions_projected [OF pp] by blast
qed

text \<open>
  Claim C8, as amended. In a dry run, \<open>process_positions\<close> and the whole run over the
  orders download nothing, write, rename and remove no file, run no command and post no
  schematic: the only events are the creation of directories (the cache directory, the
  directory of an image, the directory of a manifest) and the GET of the two release
  addresses by which \<open>latest\<close> and \<open>latest-in-minor\<close> are resolved, and every file keeps
  its content. The entries of a dry run are projected entries. When the defaults are
  read and every item is a mapping whose push condition evaluates, there is one entry
  for every applicable item. An item without a schematic id gets the placeholder
  \<open><to-be-created>\<close>.
\<close>

theorem dry_run_plans_only:
  "plan_step w (snd (process_positions E orderid positions defaults True w))
   \<and> plan_step w (snd (main_run E config orders_file True pol defaults manifest_cfg orders_list w))
   \<and> (process_positions E orderid positions defaults True w = (Inr entries, w')
        \<longrightarrow> list_all projected entries)
   \<and> (read_defaults defaults True w = (Inr c, w1)
        \<and> (\<forall>x\<in>set its. is_mapping x
               \<and> (\<exists>b. wants_push (c_push_enabled_default c) x = Inr b))
        \<longrightarrow> (\<exists>es v. process_positions E orderid (VList its) defaults True w = (Inr es, v)
              \<and> length es = length (filter (\<lambda>x. \<not> skipped x) its)
              \<and> list_all projected es))
   \<and> (c_dry_run c' \<and> py_get it ''schematic_id'' VNone = Inr given \<and> \<not> truthy given
        \<and> build_entry E c' it name u = (Inr a, u')
        \<longrightarrow> a_schematic_id a = VStr ''<to-be-created>'')"
proof (intro conjI impI)
  show "plan_step w (snd (process_positions E orderid positions defaults True w))"
    using plan_only_process_positions by (simp add: plan_only_def)
  show "plan_step w (snd (main_run E config orders_file True pol defaults manifest_cfg orders_list w))"
    using plan_only_main_run by (simp add: plan_only_def)
next
  assume "process_positions E orderid positions defaults True w = (Inr entries, w')"
  then show "list_all projected entries" by (rule process_positions_projected)
next
  assume "read_defaults defaults True w = (Inr c, w1)
        \<and> (\<forall>x\<in>set its. is_mapping x
               \<and> (\<exists>b. wants_push (c_push_enabled_default c) x = Inr b))"
  then show "\<exists>es v. process_positions E orderid (VList its) defaults True w = (Inr es, v)
              \<and> length es = length (filter (\<lambda>x. \<not> skipped x) its)
              \<and> list_all projected es"
    using process_positions_dry_total [of defaults w c w1 its E orderid] by blast
next
  assume "c_dry_run c' \<and> py_get it ''schematic_id'' VNone = Inr given \<and> \<not> truthy given
        \<and> build_entry E c' it name u = (Inr a, u')"
  then show "a_schematic_id a = VStr ''<to-be-created>''"
    using build_entry_placeholder by blast
qed


text \<open>
  The theorem at a dry run over four positions, one of them of another product and one
  with an unknown version type, and at a dry run over two orders.
\<close>

theorem dry_run_plans_only_witness:
  "plan_step w0 (snd (process_positions env0 ''1'' (VList [item_a, item_b, item_c, item_d])
                        defaults_c True w0))
   \<and> plan_step w0 (snd (main_run env0 ''config.yaml'' ''orders.yaml'' True policy3 defaults_c
                          (VDict []) two_orders w0))
   \<and> process_positions env0 ''1'' (VList [item_a, item_b, item_c, item_d]) defaults_c True w0
       = (Inr [Artifact \<lparr>a_name = VStr ''a'', a_product = ''talos'', a_platform = VStr ''nocloud'',
             a_arch = VStr ''amd64'', a_version = VStr ''v1.11.0'', a_version_source = ''exact'',
             a_secureboot = False, a_image_format = VStr ''iso'', a_schematic_id = VStr ''abc'',
             a_url = ''https://factory.talos.dev/image/abc/v1.11.0/nocloud-amd64.iso'',
             a_cache_dir = ''/c'',
             a_download = \<lparr>dl_path = ''/c/talos-v1.11.0-nocloud-amd64.iso'', dl_done = False,
                             dl_sha256 = None, dl_size_bytes = None\<rparr>,
             a_decompressed = None, a_pushed = [], a_features = VDict [],
             a_timestamp_utc = ''2024-01-01T00:00:00Z''\<rparr>, PositionError (VStr ''b'') ''position failed: ValueError: Unknown version.type: newest'', Artifact \<lparr>a_name = VStr ''c'', a_product = ''talos'', a_platform = VStr ''nocloud'',
             a_arch = VStr ''amd64'', a_version = VStr ''v1.11.2'', a_version_source = ''latest'',
             a_secureboot = True, a_image_format = VStr ''raw.xz'',
             a_schematic_id = VStr ''<to-be-created>'',
             a_url = ''https://factory.talos.dev/image/<to-be-created>/v1.11.2/nocloud-amd64-secureboot.raw.xz'',
             a_cache_dir = ''/c'',
             a_download = \<lparr>dl_path = ''/c/talos-v1.11.2-nocloud-amd64-secureboot.raw.xz'',
                             dl_done = False, dl_sha256 = None, dl_size_bytes = None\<rparr>,
             a_decompressed = None, a_pushed = [], a_features = VList [VStr ''qemu''],
             a_timestamp_utc = ''2024-01-01T00:00:00Z''\<rparr>], \<lparr>fs = [(''/c'', Dir)],
        trace = [Makedirs ''/c'', Makedirs ''/c'', HttpGet GITHUB_LATEST, Makedirs ''/c'']\<rparr>)
   \<and> list_all projected [Artifact \<lparr>a_name = VStr ''a'', a_product = ''talos'', a_platform = VStr ''nocloud'',
             a_arch = VStr ''amd64'', a_version = VStr ''v1.11.0'', a_version_source = ''exact'',
             a_secureboot = False, a_image_format = VStr ''iso'', a_schematic_id = VStr ''abc'',
             a_url = ''https://factory.talos.dev/image/abc/v1.11.0/nocloud-amd64.iso'',
             a_cache_dir = ''/c'',
             a_download = \<lparr>dl_path = ''/c/talos-v1.11.0-nocloud-amd64.iso'', dl_done = False,
                             dl_sha256 = None, dl_size_bytes = None\<rparr>,
             a_decompressed = None, a_pushed = [], a_features = VDict [],
             a_timestamp_utc = ''2024-01-01T00:00:00Z''\<rparr>, PositionError (VStr ''b'') ''position failed: ValueError: Unknown version.type: newest'', Artifact \<lparr>a_name = VStr ''c'', a_product = ''talos'', a_platform = VStr ''nocloud'',
             a_arch = VStr ''amd64'', a_version = VStr ''v1.11.2'', a_version_source = ''latest'',
             a_secureboot = True, a_image_format = VStr ''raw.xz'',
             a_schematic_id = VStr ''<to-be-created>'',
             a_url = ''https://factory.talos.dev/image/<to-be-created>/v1.11.2/nocloud-amd64-secureboot.raw.xz'',
             a_cache_dir = ''/c'',
             a_download = \<lparr>dl_path = ''/c/talos-v1.11.2-nocloud-amd64-secureboot.raw.xz'',
                             dl_done = False, dl_sha256 = None, dl_size_bytes = None\<rparr>,
             a_decompressed = None, a_pushed = [], a_features = VList [VStr ''qemu''],
             a_timestamp_utc = ''2024-01-01T00:00:00Z''\<rparr>]
   \<and> read_defaults defaults_c True w0 = (Inr ctx_plan, \<lparr>fs = [(''/c'', Dir)], trace = [Makedirs ''/c'']\<rparr>)
   \<and> is_mapping item_a \<and> is_mapping item_b \<and> is_mapping item_c \<and> is_mapping item_d
   \<and> wants_push (c_push_enabled_default ctx_plan) item_a = Inr False
   \<and> wants_push (c_push_enabled_default ctx_plan) item_b = Inr False
   \<and> wants_push (c_push_enabled_default ctx_plan) item_c = Inr True
   \<and> wants_push (c_push_enabled_default ctx_plan) item_d = Inr False
   \<and> length [Artifact \<lparr>a_name = VStr ''a'', a_product = ''talos'', a_platform = VStr ''nocloud'',
             a_arch = VStr ''amd64'', a_version = VStr ''v1.11.0'', a_version_source = ''exact'',
             a_secureboot = False, a_image_format = VStr ''iso'', a_schematic_id = VStr ''abc'',
             a_url = ''https://factory.talos.dev/image/abc/v1.11.0/nocloud-amd64.iso'',
             a_cache_dir = ''/c'',
             a_download = \<lparr>dl_path = ''/c/talos-v1.11.0-nocloud-amd64.iso'', dl_done = False,
                             dl_sha256 = None, dl_size_bytes = None\<rparr>,
             a_decompressed = None, a_pushed = [], a_features = VDict [],
             a_timestamp_utc = ''2024-01-01T00:00:00Z''\<rparr>, PositionError (VStr ''b'') ''position failed: ValueError: Unknown version.type: newest'', Artifact \<lparr>a_name = VStr ''c'', a_product = ''talos'', a_platform = VStr ''nocloud'',
             a_arch = VStr ''amd64'', a_version = VStr ''v1.11.2'', a_version_source = ''latest'',
             a_secureboot = True, a_image_format = VStr ''raw.xz'',
             a_schematic_id = VStr ''<to-be-created>'',
             a_url = ''https://factory.talos.dev/image/<to-be-created>/v1.11.2/nocloud-amd64-secureboot.raw.xz'',
             a_cache_dir = ''/c'',
             a_download = \<lparr>dl_path = ''/c/talos-v1.11.2-nocloud-amd64-secureboot.raw.xz'',
                             dl_done = False, dl_sha256 = None, dl_size_bytes = None\<rparr>,
             a_decompressed = None, a_pushed = [], a_features = VList [VStr ''qemu''],
             a_timestamp_utc = ''2024-01-01T00:00:00Z''\<rparr>]
       = length (filter (\<lambda>x. \<not> skipped x) [item_a, item_b, item_c, item_d])
   \<and> c_dry_run ctx_plan \<and> py_get item_c ''schematic_id'' VNone = Inr VNone \<and> \<not> truthy VNone
   \<and> build_entry env0 ctx_plan item_c (VStr ''c'') \<lparr>fs = [(''/c'', Dir)], trace = [Makedirs ''/c'']\<rparr> = (Inr \<lparr>a_name = VStr ''c'', a_product = ''talos'', a_platform = VStr ''nocloud'',
             a_arch = VStr ''amd64'', a_version = VStr ''v1.11.2'', a_version_source = ''latest'',
             a_secureboot = True, a_image_format = VStr ''raw.xz'',
             a_schematic_id = VStr ''<to-be-created>'',
             a_url = ''https://factory.talos.dev/image/<to-be-created>/v1.11.2/nocloud-amd64-secureboot.raw.xz'',
             a_cache_dir = ''/c'',
             a_download = \<lparr>dl_path = ''/c/talos-v1.11.2-nocloud-amd64-secureboot.raw.xz'',
                             dl_done = False, dl_sha256 = None, dl_size_bytes = None\<rparr>,
             a_decompressed = None, a_pushed = [], a_features = VList [VStr ''qemu''],
             a_timestamp_utc = ''2024-01-01T00:00:00Z''\<rparr>, \<lparr>fs = [(''/c'', Dir)],
        trace = [Makedirs ''/c'', HttpGet GITHUB_LATEST, Makedirs ''/c'']\<rparr>)
   \<and> a_schematic_id \<lparr>a_name = VStr ''c'', a_product = ''talos'', a_platform = VStr ''nocloud'',
             a_arch = VStr ''amd64'', a_version = VStr ''v1.11.2'', a_version_source = ''latest'',
             a_secureboot = True, a_image_format = VStr ''raw.xz'',
             a_schematic_id = VStr ''<to-be-created>'',
             a_url = ''https://factory.talos.dev/image/<to-be-created>/v1.11.2/nocloud-amd64-secureboot.raw.xz'',
             a_cache_dir = ''/c'',
             a_download = \<lparr>dl_path = ''/c/talos-v1.11.2-nocloud-amd64-secureboot.raw.xz'',
                             dl_done = False, dl_sha256 = None, dl_size_bytes = None\<rparr>,
             a_decompressed = None, a_pushed = [], a_features = VList [VStr ''qemu''],
             a_timestamp_utc = ''2024-01-01T00:00:00Z''\<rparr> = VStr ''<to-be-created>''"
proof -
  let ?A = "\<lparr>a_name = VStr ''a'', a_product = ''talos'', a_platform = VStr ''nocloud'',
             a_arch = VStr ''amd64'', a_version = VStr ''v1.11.0'', a_version_source = ''exact'',
             a_secureboot = False, a_image_format = VStr ''iso'', a_schematic_id = VStr ''abc'',
             a_url = ''https://factory.talos.dev/image/abc/v1.11.0/nocloud-amd64.iso'',
             a_cache_dir = ''/c'',
             a_download = \<lparr>dl_path = ''/c/talos-v1.11.0-nocloud-amd64.iso'', dl_done = False,
                             dl_sha256 = None, dl_size_bytes = None\<rparr>,
             a_decompressed = None, a_pushed = [], a_features = VDict [],
             a_timestamp_utc = ''2024-01-01T00:00:00Z''\<rparr>"
  let ?C = "\<lparr>a_name = VStr ''c'', a_product = ''talos'', a_platform = VStr ''nocloud'',
             a_arch = VStr ''amd64'', a_version = VStr ''v1.11.2'', a_version_source = ''latest'',
             a_secureboot = True, a_image_format = VStr ''raw.xz'',
             a_schematic_id = VStr ''<to-be-created>'',
             a_url = ''https://factory.talos.dev/image/<to-be-created>/v1.11.2/nocloud-amd64-secureboot.raw.xz'',
             a_cache_dir = ''/c'',
             a_download = \<lparr>dl_path = ''/c/talos-v1.11.2-nocloud-amd64-secureboot.raw.xz'',
                             dl_done = False, dl_sha256 = None, dl_size_bytes = None\<rparr>,
             a_decompressed = None, a_pushed = [], a_features = VList [VStr ''qemu''],
             a_timestamp_utc = ''2024-01-01T00:00:00Z''\<rparr>"
  let ?P = "PositionError (VStr ''b'') ''position failed: ValueError: Unknown version.type: newest''"
  let ?W1 = "\<lparr>fs = [(''/c'', Dir)], trace = [Makedirs ''/c'']\<rparr>"
  let ?W3 = "\<lparr>fs = [(''/c'', Dir)],
        trace = [Makedirs ''/c'', HttpGet GITHUB_LATEST, Makedirs ''/c'']\<rparr>"
  let ?W4 = "\<lparr>fs = [(''/c'', Dir)],
        trace = [Makedirs ''/c'', Makedirs ''/c'', HttpGet GITHUB_LATEST, Makedirs ''/c'']\<rparr>"
  let ?its = "[item_a, item_b, item_c, item_d]"
  note inst = dry_run_plans_only [where w = w0 and E = env0 and orderid = "''1''"
      and positions = "VList ?its" and defaults = defaults_c and config = "''config.yaml''"
      and orders_file = "''orders.yaml''" and pol = policy3 and manifest_cfg = "VDict []"
      and orders_list = two_orders and entries = "[Artifact ?A, ?P, Artifact ?C]" and w' = ?W4
      and c = ctx_plan and ?w1.0 = ?W1 and its = ?its and c' = ctx_plan and it = item_c
      and given = VNone and name = "VStr ''c''" and u = ?W1 and a = ?C and u' = ?W3]
  have s1: "plan_step w0 (snd (process_positions env0 ''1'' (VList ?its) defaults_c True w0))"
    using inst by blast
  have s2: "plan_step w0 (snd (main_run env0 ''config.yaml'' ''orders.yaml'' True policy3 defaults_c
                          (VDict []) two_orders w0))"
    using inst by blast
  have run: "process_positions env0 ''1'' (VList ?its) defaults_c True w0
       = (Inr [Artifact ?A, ?P, Artifact ?C], ?W4)"
    by code_simp
  have proj: "list_all projected [Artifact ?A, ?P, Artifact ?C]"
    using inst run by blast
  have rd: "read_defaults defaults_c True w0 = (Inr ctx_plan, ?W1)" by code_simp
  have maps: "is_mapping item_a" "is_mapping item_b" "is_mapping item_c" "is_mapping item_d"
    by (simp_all add: is_mapping_def item_a_def item_b_def item_c_def item_d_def)
  have wa: "wants_push (c_push_enabled_default ctx_plan) item_a = Inr False" by code_simp
  have wb: "wants_push (c_push_enabled_default ctx_plan) item_b = Inr False" by code_simp
  have wc: "wants_push (c_push_enabled_default ctx_plan) item_c = Inr True" by code_simp
  have wd: "wants_push (c_push_enabled_default ctx_plan) item_d = Inr False" by code_simp
  have hyp4: "read_defaults defaults_c True w0 = (Inr ctx_plan, ?W1)
        \<and> (\<forall>x\<in>set ?its. is_mapping x
               \<and> (\<exists>b. wants_push (c_push_enabled_default ctx_plan) x = Inr b))"
    using rd maps wa wb wc wd by auto
  have "\<exists>es v. process_positions env0 ''1'' (VList ?its) defaults_c True w0 = (Inr es, v)
              \<and> length es = length (filter (\<lambda>x. \<not> skipped x) ?its)
              \<and> list_all projected es"
    using inst hyp4 by blast
  then have len: "length [Artifact ?A, ?P, Artifact ?C]
       = length (filter (\<lambda>x. \<not> skipped x) ?its)"
    using run by auto
  have dry: "c_dry_run ctx_plan" by (simp add: ctx_plan_def)
  have gv: "py_get item_c ''schematic_id'' VNone = Inr VNone" by code_simp
  have nt: "\<not> truthy VNone" by simp
  have be: "build_entry env0 ctx_plan item_c (VStr ''c'') ?W1 = (Inr ?C, ?W3)" by code_simp
  have ph: "a_schematic_id ?C = VStr ''<to-be-created>''"
    using inst dry gv nt be by blast
  show ?thesis
    by (intro conjI) (rule s1 s2 run proj rd maps wa wb wc wd len dry gv nt be ph)+
qed

text \<open>
  Claim C8 as it is written fails: a dry run over one position without a version
  specification, started with an empty file system, calls the latest-release address and
  creates the cache directory.
\<close>

theorem dry_run_queries_and_creates_counterexample:
  "snd (process_positions env0 ''1'' (VList [item_c]) defaults_c True w0)
     = \<lparr>fs = [(''/c'', Dir)],
        trace = [Makedirs ''/c'', HttpGet GITHUB_LATEST, Makedirs ''/c'']\<rparr>
   \<and> fs w0 = [] \<and> trace w0 = []"
proof -
  have "snd (process_positions env0 ''1'' (VList [item_c]) defaults_c True w0) = \<lparr>fs = [(''/c'', Dir)],
        trace = [Makedirs ''/c'', HttpGet GITHUB_LATEST, Makedirs ''/c'']\<rparr>"
    by code_simp
  then show ?thesis by (simp add: w0_def)
qed

end
